theory Spec2Isabelle
  imports Complex_Main "HOL-Library.AList"
begin

section \<open>SimpleBackup: a model of \<^verbatim>\<open>backup_automator.py\<close>\<close>

text \<open>
  The program reads a JSON configuration, archives every configured website, dumps every
  configured database through an external two-stage pipe, sweeps the backup directory
  for expired files and reports how many targets succeeded and failed.

  The embedding follows the source function by function. What the program reads from
  outside (the wall clock, the formatting of a time stamp, which paths exist, which
  executables are installed, how an archive run or a pipe of two processes ends) is an
  explicit environment of type \<open>env\<close>. What the program changes (the direct entries
  of the backup directory, the log stream, the processes it has started, the
  configuration file) is an explicit \<open>state\<close>, passed in and returned.

  Conventions of the model.
  \<^item> A configuration document is well typed: a key that the code reads with
    \<^verbatim>\<open>d[key]\<close> is a plain field, a key that it reads with
    \<^verbatim>\<open>d.get(key, default)\<close> is an optional field and \<open>None\<close> stands for
    the key being absent. A file that decodes as JSON to something else (a value that
    is not an object, or an object without \<^verbatim>\<open>backup_dir\<close>) is a case of its own.
  \<^item> Time stamps are real numbers that stand for the doubles the program holds; the one
    floating-point operation the program performs on them, the subtraction that gives
    the age of a file, rounds its result to the nearest double. Byte counts are naturals.
  \<^item> Strings are byte strings; \<^verbatim>\<open>str.lower\<close> is modelled on ASCII letters.
  \<^item> Target names hold no path separator, so every artefact is a direct entry of the
    backup directory and is identified by its file name.
  \<^item> Log lines are values of the datatype \<open>message\<close>, one constructor per format
    string of the source, together with the level they are logged at.
\<close>

subsection \<open>Configuration documents\<close>

record website =
  w_name :: string
  w_path :: string
  w_enabled :: "bool option"

record database =
  db_name :: string
  db_type :: "string option"
  db_host :: string
  db_port :: "int option"
  db_user :: string
  db_password :: string
  db_database :: string
  db_enabled :: "bool option"

record notifications =
  n_enabled :: bool
  n_email :: string

record configuration =
  backup_dir :: string
  retention_days :: "int option"
  compression :: "string option"
  websites :: "website list option"
  databases :: "database list option"
  notification :: "notifications option"

text \<open>\<^verbatim>\<open>d.get(key, default)\<close> on an optional field.\<close>

definition get_default :: "'a option \<Rightarrow> 'a \<Rightarrow> 'a" where
  "get_default v d = (case v of None \<Rightarrow> d | Some x \<Rightarrow> x)"

subsection \<open>The world outside the program\<close>

text \<open>An entry of the backup directory: a regular file or not, its modification time, its size.\<close>

record entry =
  is_file :: bool
  st_mtime :: real
  st_size :: nat

text \<open>
  How \<^verbatim>\<open>tarfile.open(...)\<close> followed by \<^verbatim>\<open>tar.add(...)\<close> ends: the
  archive is complete with a size, or an exception with its text was raised, after the
  destination had been created with some partial size or before it existed.
\<close>

datatype archive_outcome = Archived nat | Archive_error string "nat option"

text \<open>
  How the pipe of the dump utility into \<^verbatim>\<open>gzip\<close> ends once both processes have
  been waited for: both return codes, both captured error streams, and the number of
  bytes \<^verbatim>\<open>gzip\<close> wrote to the destination.
\<close>

record pipe_result =
  dump_returncode :: int
  dump_error :: string
  gzip_returncode :: int
  gzip_error :: string
  written :: nat

record env =
  clock :: "nat \<Rightarrow> real"
  strftime :: "real \<Rightarrow> string"
  path_exists :: "string \<Rightarrow> bool"
  tar_add :: "string \<Rightarrow> archive_outcome"
  installed :: "string \<Rightarrow> bool"
  run_pipe :: "string list \<Rightarrow> string option \<Rightarrow> pipe_result"

text \<open>
  \<open>clock env k\<close> is the \<open>k\<close>-th reading of the wall clock during the run,
  \<open>strftime\<close> renders a reading as \<^verbatim>\<open>%Y%m%d_%H%M%S\<close> in local time,
  \<open>installed\<close> tells whether \<^verbatim>\<open>Popen\<close> finds an executable, and
  \<open>run_pipe cmd pgpassword\<close> is the outcome of the dump command \<open>cmd\<close> (run with
  \<^verbatim>\<open>PGPASSWORD\<close> set when given) piped into \<^verbatim>\<open>gzip\<close>.
\<close>

datatype level = INFO | ERROR | PRINT

datatype message =
    Invalid_JSON_in string
  | Default_configuration_created string
  | Please_edit_this_file
  | Skipping_disabled_website string
  | Website_path_does_not_exist string
  | Backing_up_website string
  | Website_backup_completed string nat
  | Website_backup_failed string
  | Backing_up_MySQL_database string
  | MySQL_backup_completed string nat
  | Mysqldump_not_found
  | MySQL_backup_failed string
  | Backing_up_PostgreSQL_database string
  | PostgreSQL_backup_completed string nat
  | Pg_dump_not_found
  | PostgreSQL_backup_failed string
  | Skipping_disabled_database string
  | Unsupported_database_type string
  | Cleaning_up_backups_older_than int
  | Removed_old_backup string
  | Cleaned_up nat nat
  | No_old_backups_to_remove
  | Rule
  | Starting_backup_process
  | Backup_process_completed nat nat
  | Configuration_initialized
  | Edit_to_configure string

text \<open>
  What \<^verbatim>\<open>json.load\<close> can return: a configuration document, or a value that is
  none. Such a value is not an object (\<^verbatim>\<open>[]\<close>, \<^verbatim>\<open>42\<close>, \<^verbatim>\<open>null\<close>, a
  string), and then \<open>Not_an_object\<close> carries the text of the \<open>TypeError\<close> that
  Python raises when the value is subscripted with a string; or it is an object without
  the key \<^verbatim>\<open>backup_dir\<close> (\<^verbatim>\<open>{}\<close>).
\<close>

datatype other_value = Not_an_object string | Object_without_backup_dir

datatype decoded = Config configuration | Other other_value

datatype config_file =
  Absent | Invalid_JSON | Document configuration | Other_JSON other_value

record state =
  files :: "(string \<times> entry) list"
  logged :: "(level \<times> message) list"
  spawned :: "string list list"
  tick :: nat
  config :: config_file

text \<open>
  \<open>files\<close> lists the direct entries of the backup directory in directory order,
  \<open>logged\<close> is everything written to the log handlers and to standard output,
  \<open>spawned\<close> lists the command lines of the processes started so far, \<open>tick\<close>
  counts the readings of the clock, and \<open>config\<close> is what the configuration path
  holds: nothing, text that is not JSON, a configuration document, or JSON of another
  shape.
\<close>

definition logging_info :: "message \<Rightarrow> state \<Rightarrow> state" where
  "logging_info m st = st\<lparr>logged := logged st @ [(INFO, m)]\<rparr>"

definition logging_error :: "message \<Rightarrow> state \<Rightarrow> state" where
  "logging_error m st = st\<lparr>logged := logged st @ [(ERROR, m)]\<rparr>"

definition print :: "message \<Rightarrow> state \<Rightarrow> state" where
  "print m st = st\<lparr>logged := logged st @ [(PRINT, m)]\<rparr>"

text \<open>\<^verbatim>\<open>Path.exists\<close>, \<^verbatim>\<open>Path.unlink\<close> and writing a file, on entries of the backup directory.\<close>

definition exists :: "string \<Rightarrow> state \<Rightarrow> bool" where
  "exists n st = (map_of (files st) n \<noteq> None)"

definition unlink :: "string \<Rightarrow> state \<Rightarrow> state" where
  "unlink n st = st\<lparr>files := AList.delete n (files st)\<rparr>"

definition write_file :: "env \<Rightarrow> string \<Rightarrow> nat \<Rightarrow> state \<Rightarrow> state" where
  "write_file e n sz st =
     st\<lparr>files := AList.update n \<lparr>is_file = True, st_mtime = clock e (tick st), st_size = sz\<rparr> (files st),
        tick := tick st + 1\<rparr>"

definition popen :: "string list \<Rightarrow> state \<Rightarrow> state" where
  "popen cmd st = st\<lparr>spawned := spawned st @ [cmd]\<rparr>"

subsection \<open>Strings\<close>

text \<open>\<^verbatim>\<open>str.lower\<close> on ASCII.\<close>

definition lower_char :: "char \<Rightarrow> char" where
  "lower_char c =
     (case map_of (zip ''ABCDEFGHIJKLMNOPQRSTUVWXYZ'' ''abcdefghijklmnopqrstuvwxyz'') c of
        None \<Rightarrow> c
      | Some l \<Rightarrow> l)"

definition lower :: "string \<Rightarrow> string" where
  "lower s = map lower_char s"

text \<open>Decimal rendering of a port number inside an f-string.\<close>

fun str_nat :: "nat \<Rightarrow> string" where
  "str_nat n =
     (if n < 10 then [''0123456789'' ! n]
      else str_nat (n div 10) @ [''0123456789'' ! (n mod 10)])"

declare str_nat.simps [simp del]

definition str_int :: "int \<Rightarrow> string" where
  "str_int i = (if i < 0 then CHR ''-'' # str_nat (nat (- i)) else str_nat (nat i))"

text \<open>
  \<^verbatim>\<open>PurePath.suffix\<close>: the part of the name from its last dot on, empty when the name
  has no dot, starts with its only dot or ends with a dot.
\<close>

fun rfind :: "char \<Rightarrow> string \<Rightarrow> nat option" where
  "rfind c [] = None"
| "rfind c (x # xs) =
     (case rfind c xs of
        Some i \<Rightarrow> Some (Suc i)
      | None \<Rightarrow> if x = c then Some 0 else None)"

definition suffix :: "string \<Rightarrow> string" where
  "suffix name =
     (case rfind CHR ''.'' name of
        None \<Rightarrow> []
      | Some i \<Rightarrow> if 0 < i \<and> i + 1 < length name then drop i name else [])"

subsection \<open>BackupConfig\<close>

definition default_config :: configuration where
  "default_config =
     \<lparr>backup_dir = ''./backups'',
      retention_days = Some 7,
      compression = Some ''gz'',
      websites = Some [\<lparr>w_name = ''example_site'', w_path = ''/var/www/html/example'',
                        w_enabled = Some False\<rparr>],
      databases = Some [\<lparr>db_name = ''example_db'', db_type = Some ''mysql'',
                         db_host = ''localhost'', db_port = Some 3306,
                         db_user = ''backup_user'', db_password = ''your_password'',
                         db_database = ''example_database'', db_enabled = Some False\<rparr>],
      notification = Some \<lparr>n_enabled = False, n_email = ''admin@example.com''\<rparr>\<rparr>"

text \<open>\<^verbatim>\<open>create_default_config\<close> writes the default document and returns it.\<close>

definition create_default_config :: "string \<Rightarrow> state \<Rightarrow> configuration \<times> state" where
  "create_default_config config_path st =
     (let st1 = st\<lparr>config := Document default_config\<rparr>;
          st2 = print (Default_configuration_created config_path) st1;
          st3 = print Please_edit_this_file st2
      in (default_config, st3))"

text \<open>
  \<^verbatim>\<open>load_config\<close>: \<open>Inl code\<close> is \<^verbatim>\<open>sys.exit(code)\<close>, \<open>Inr d\<close> the
  value returned. Only \<^verbatim>\<open>json.JSONDecodeError\<close> is caught: whatever decodes is
  returned as it is.
\<close>

definition load_config :: "string \<Rightarrow> state \<Rightarrow> (int + decoded) \<times> state" where
  "load_config config_path st =
     (case config st of
        Absent \<Rightarrow>
          (case create_default_config config_path st of (c, st') \<Rightarrow> (Inr (Config c), st'))
      | Document c \<Rightarrow> (Inr (Config c), st)
      | Other_JSON v \<Rightarrow> (Inr (Other v), st)
      | Invalid_JSON \<Rightarrow> (Inl 1, logging_error (Invalid_JSON_in config_path) st))"

subsection \<open>BackupManager\<close>

text \<open>
  Exceptions that the model raises inside a \<^verbatim>\<open>try\<close> block or at start-up, and
  \<^verbatim>\<open>str(e)\<close> for the handlers that log it.
\<close>

datatype exn =
  FileNotFoundError | FileExistsError string | KeyError string | TypeError string
  | Exception string

fun str :: "exn \<Rightarrow> string" where
  "str FileNotFoundError = ''[Errno 2] No such file or directory''"
| "str (FileExistsError p) = ''[Errno 17] File exists: '' @ p"
| "str (KeyError k) = [CHR 0x27] @ k @ [CHR 0x27]"
| "str (TypeError m) = m"
| "str (Exception m) = m"

text \<open>
  \<^verbatim>\<open>setup_logging\<close> creates the \<^verbatim>\<open>logs\<close> directory inside the backup directory
  (\<^verbatim>\<open>mkdir(exist_ok=True)\<close>: an existing directory is fine, an existing file of that
  name is not) and reads the clock once for the name of the log file.
\<close>

definition setup_logging :: "env \<Rightarrow> state \<Rightarrow> exn + state" where
  "setup_logging e st =
     (case map_of (files st) ''logs'' of
        None \<Rightarrow>
          Inr (st\<lparr>files := files st @ [(''logs'', \<lparr>is_file = False, st_mtime = clock e (tick st), st_size = 0\<rparr>)],
                 tick := tick st + 2\<rparr>)
      | Some d \<Rightarrow>
          if is_file d then Inl (FileExistsError ''logs'') else Inr (st\<lparr>tick := tick st + 1\<rparr>))"

text \<open>
  \<^verbatim>\<open>BackupManager.__init__\<close> keeps the value it is given and reads
  \<^verbatim>\<open>config['backup_dir']\<close> first, which raises on a value that is not an object and
  on an object without that key; the backup directory is taken to be creatable. The
  result is the manager: its configuration and the state after construction.
\<close>

definition BackupManager :: "env \<Rightarrow> decoded \<Rightarrow> state \<Rightarrow> exn + configuration \<times> state" where
  "BackupManager e d st =
     (case d of
        Other (Not_an_object text) \<Rightarrow> Inl (TypeError text)
      | Other Object_without_backup_dir \<Rightarrow> Inl (KeyError ''backup_dir'')
      | Config cfg \<Rightarrow>
          (case setup_logging e st of
             Inl ex \<Rightarrow> Inl ex
           | Inr st' \<Rightarrow> Inr (cfg, st')))"

definition get_timestamp :: "env \<Rightarrow> state \<Rightarrow> string \<times> state" where
  "get_timestamp e st = (strftime e (clock e (tick st)), st\<lparr>tick := tick st + 1\<rparr>)"

text \<open>
  \<^verbatim>\<open>backup_website\<close>: the result is the name of the archive, or \<open>None\<close>. A
  failing archive run leaves whatever it had written: this path has no clean-up.
\<close>

definition backup_website :: "env \<Rightarrow> website \<Rightarrow> state \<Rightarrow> string option \<times> state" where
  "backup_website e website st =
     (if \<not> get_default (w_enabled website) False then
        (None, logging_info (Skipping_disabled_website (w_name website)) st)
      else if \<not> path_exists e (w_path website) then
        (None, logging_error (Website_path_does_not_exist (w_path website)) st)
      else
        (case get_timestamp e st of
           (timestamp, st1) \<Rightarrow>
             (let backup_name = w_name website @ ''_website_'' @ timestamp @ ''.tar.gz'';
                  st2 = logging_info (Backing_up_website (w_name website)) st1
              in case tar_add e (w_path website) of
                   Archived n \<Rightarrow>
                     (Some backup_name,
                      logging_info (Website_backup_completed backup_name n)
                        (write_file e backup_name n st2))
                 | Archive_error text partial \<Rightarrow>
                     (None,
                      logging_error (Website_backup_failed text)
                        (case partial of
                           None \<Rightarrow> st2
                         | Some n \<Rightarrow> write_file e backup_name n st2)))))"

text \<open>
  The \<^verbatim>\<open>with open(backup_path, 'wb')\<close> block shared, word for word, by the two
  database paths: the destination is created empty, the dump utility is started, then
  \<^verbatim>\<open>gzip\<close>, both are waited for, and a non-zero return code of either raises.
  \<^verbatim>\<open>Popen\<close> raises \<open>FileNotFoundError\<close> when the executable is not installed. On
  success the result is the size the destination then has.
\<close>

definition dump_and_compress ::
    "env \<Rightarrow> string \<Rightarrow> string list \<Rightarrow> string option \<Rightarrow> string \<Rightarrow> state \<Rightarrow> (exn + nat) \<times> state" where
  "dump_and_compress e tool cmd pgpassword backup_name st =
     (let st1 = write_file e backup_name 0 st in
      if \<not> installed e tool then (Inl FileNotFoundError, st1)
      else
        (let st2 = popen cmd st1 in
         if \<not> installed e ''gzip'' then (Inl FileNotFoundError, st2)
         else
           (let st3 = popen [''gzip''] st2;
                r = run_pipe e cmd pgpassword;
                st4 = write_file e backup_name (written r) st3
            in if dump_returncode r \<noteq> 0 then
                 (Inl (Exception (tool @ '' error: '' @ dump_error r)), st4)
               else if gzip_returncode r \<noteq> 0 then
                 (Inl (Exception (''gzip error: '' @ gzip_error r)), st4)
               else (Inr (written r), st4))))"

text \<open>
  \<^verbatim>\<open>backup_mysql_database\<close>. The command is built inside the \<^verbatim>\<open>try\<close>, so a
  missing \<^verbatim>\<open>port\<close> is a \<open>KeyError\<close> for the general handler. The handler for
  \<open>FileNotFoundError\<close> logs and returns; the general handler logs, removes the
  destination if it exists, and returns.
\<close>

definition backup_mysql_database :: "env \<Rightarrow> database \<Rightarrow> state \<Rightarrow> string option \<times> state" where
  "backup_mysql_database e db_config st =
     (case get_timestamp e st of
        (timestamp, st1) \<Rightarrow>
          (let backup_name = db_name db_config @ ''_mysql_'' @ timestamp @ ''.sql.gz'';
               st2 = logging_info (Backing_up_MySQL_database (db_database db_config)) st1
           in case (case db_port db_config of
                      None \<Rightarrow> (Inl (KeyError ''port''), st2)
                    | Some port \<Rightarrow>
                        dump_and_compress e ''mysqldump''
                          [''mysqldump'',
                           ''--host='' @ db_host db_config,
                           ''--port='' @ str_int port,
                           ''--user='' @ db_user db_config,
                           ''--password='' @ db_password db_config,
                           ''--single-transaction'',
                           ''--quick'',
                           ''--lock-tables=false'',
                           db_database db_config]
                          None backup_name st2) of
                (Inr backup_size, st3) \<Rightarrow>
                  (Some backup_name,
                   logging_info (MySQL_backup_completed backup_name backup_size) st3)
              | (Inl ex, st3) \<Rightarrow>
                  if ex = FileNotFoundError then (None, logging_error Mysqldump_not_found st3)
                  else
                    (let st4 = logging_error (MySQL_backup_failed (str ex)) st3
                     in (None, if exists backup_name st4 then unlink backup_name st4 else st4))))"

text \<open>
  \<^verbatim>\<open>backup_postgresql_database\<close>: the same pipe, the password in the environment of
  the dump process, the port 5432 when the document has none.
\<close>

definition backup_postgresql_database :: "env \<Rightarrow> database \<Rightarrow> state \<Rightarrow> string option \<times> state" where
  "backup_postgresql_database e db_config st =
     (case get_timestamp e st of
        (timestamp, st1) \<Rightarrow>
          (let backup_name = db_name db_config @ ''_postgresql_'' @ timestamp @ ''.sql.gz'';
               st2 = logging_info (Backing_up_PostgreSQL_database (db_database db_config)) st1
           in case dump_and_compress e ''pg_dump''
                     [''pg_dump'',
                      ''--host='' @ db_host db_config,
                      ''--port='' @ str_int (get_default (db_port db_config) 5432),
                      ''--username='' @ db_user db_config,
                      ''--format=plain'',
                      ''--no-owner'',
                      ''--no-acl'',
                      db_database db_config]
                     (Some (db_password db_config)) backup_name st2 of
                (Inr backup_size, st3) \<Rightarrow>
                  (Some backup_name,
                   logging_info (PostgreSQL_backup_completed backup_name backup_size) st3)
              | (Inl ex, st3) \<Rightarrow>
                  if ex = FileNotFoundError then (None, logging_error Pg_dump_not_found st3)
                  else
                    (let st4 = logging_error (PostgreSQL_backup_failed (str ex)) st3
                     in (None, if exists backup_name st4 then unlink backup_name st4 else st4))))"

text \<open>\<^verbatim>\<open>backup_database\<close>: the dispatch on the lower-cased type, \<^verbatim>\<open>mysql\<close> when absent.\<close>

definition backup_database :: "env \<Rightarrow> database \<Rightarrow> state \<Rightarrow> string option \<times> state" where
  "backup_database e db_config st =
     (if \<not> get_default (db_enabled db_config) False then
        (None, logging_info (Skipping_disabled_database (db_name db_config)) st)
      else
        (let db_type = lower (get_default (db_type db_config) ''mysql'') in
         if db_type = ''mysql'' \<or> db_type = ''mariadb'' then backup_mysql_database e db_config st
         else if db_type = ''postgresql'' \<or> db_type = ''postgres'' then
           backup_postgresql_database e db_config st
         else (None, logging_error (Unsupported_database_type db_type) st)))"

text \<open>
  Double-precision subtraction. The exact difference is rounded to the nearest number
  with a significand of 53 bits, ties to the even one (\<open>double\<close>; time stamps and
  their differences are far from overflow and from the subnormal range, which are left
  out). \<open>round_half_even\<close> is the nearest integer, ties to even.
\<close>

definition round_half_even :: "real \<Rightarrow> int" where
  "round_half_even x =
     (let f = \<lfloor>x\<rfloor>; r = x - of_int f
      in if r < 1 / 2 then f else if 1 / 2 < r then f + 1 else if even f then f else f + 1)"

definition double :: "real \<Rightarrow> real" where
  "double x =
     (if x = 0 then 0
      else (let ulp = 2 powr (of_int \<lfloor>log 2 \<bar>x\<bar>\<rfloor> - 52)
            in of_int (round_half_even (x / ulp)) * ulp))"

text \<open>
  The loop of \<^verbatim>\<open>cleanup_old_backups\<close> over the names that \<^verbatim>\<open>glob('*')\<close> listed,
  carrying \<^verbatim>\<open>removed_count\<close> and \<^verbatim>\<open>freed_space\<close>. Each name is looked up when
  its turn comes, as \<^verbatim>\<open>is_file()\<close> and \<^verbatim>\<open>stat()\<close> do. The age is a double;
  the limit is a Python integer, and Python compares the two exactly.
\<close>

fun sweep :: "real \<Rightarrow> int \<Rightarrow> string list \<Rightarrow> nat \<Rightarrow> nat \<Rightarrow> state \<Rightarrow> nat \<times> nat \<times> state" where
  "sweep current_time retention_seconds [] removed_count freed_space st =
     (removed_count, freed_space, st)"
| "sweep current_time retention_seconds (n # ns) removed_count freed_space st =
     (case map_of (files st) n of
        None \<Rightarrow> sweep current_time retention_seconds ns removed_count freed_space st
      | Some backup_file \<Rightarrow>
          if is_file backup_file \<and> suffix n \<in> set [''.gz'', ''.sql'', ''.tar''] then
            (let file_age = double (current_time - st_mtime backup_file) in
             if file_age > real_of_int retention_seconds then
               sweep current_time retention_seconds ns (removed_count + 1)
                 (freed_space + st_size backup_file)
                 (logging_info (Removed_old_backup n) (unlink n st))
             else sweep current_time retention_seconds ns removed_count freed_space st)
          else sweep current_time retention_seconds ns removed_count freed_space st)"

definition cleanup_old_backups :: "env \<Rightarrow> configuration \<Rightarrow> state \<Rightarrow> state" where
  "cleanup_old_backups e cfg st =
     (let retention_days = get_default (retention_days cfg) 7;
          current_time = clock e (tick st);
          st1 = st\<lparr>tick := tick st + 1\<rparr>;
          retention_seconds = retention_days * 24 * 3600;
          st2 = logging_info (Cleaning_up_backups_older_than retention_days) st1
      in case sweep current_time retention_seconds (map fst (files st2)) 0 0 st2 of
           (removed_count, freed_space, st3) \<Rightarrow>
             if removed_count > 0 then logging_info (Cleaned_up removed_count freed_space) st3
             else logging_info No_old_backups_to_remove st3)"

text \<open>The two loops of \<^verbatim>\<open>run_backup\<close>: a result that is not \<open>None\<close> is truthy.\<close>

fun backup_websites :: "env \<Rightarrow> website list \<Rightarrow> nat \<Rightarrow> nat \<Rightarrow> state \<Rightarrow> nat \<times> nat \<times> state" where
  "backup_websites e [] success_count fail_count st = (success_count, fail_count, st)"
| "backup_websites e (website # rest) success_count fail_count st =
     (case backup_website e website st of
        (result, st') \<Rightarrow>
          if result \<noteq> None then backup_websites e rest (success_count + 1) fail_count st'
          else backup_websites e rest success_count (fail_count + 1) st')"

fun backup_databases :: "env \<Rightarrow> database list \<Rightarrow> nat \<Rightarrow> nat \<Rightarrow> state \<Rightarrow> nat \<times> nat \<times> state" where
  "backup_databases e [] success_count fail_count st = (success_count, fail_count, st)"
| "backup_databases e (database # rest) success_count fail_count st =
     (case backup_database e database st of
        (result, st') \<Rightarrow>
          if result \<noteq> None then backup_databases e rest (success_count + 1) fail_count st'
          else backup_databases e rest success_count (fail_count + 1) st')"

definition run_backup :: "env \<Rightarrow> configuration \<Rightarrow> state \<Rightarrow> nat \<times> nat \<times> state" where
  "run_backup e cfg st =
     (let st1 = logging_info Rule (logging_info Starting_backup_process (logging_info Rule st))
      in case backup_websites e (get_default (websites cfg) []) 0 0 st1 of
           (success_count, fail_count, st2) \<Rightarrow>
             (case backup_databases e (get_default (databases cfg) []) success_count fail_count st2 of
                (success_count, fail_count, st3) \<Rightarrow>
                  (let st4 = cleanup_old_backups e cfg st3;
                       st5 = logging_info Rule
                               (logging_info (Backup_process_completed success_count fail_count)
                                  (logging_info Rule st4))
                   in (success_count, fail_count, st5))))"

subsection \<open>The command line\<close>

record args =
  arg_config :: string
  arg_init :: bool

text \<open>
  How the process ends: \<^verbatim>\<open>sys.exit(code)\<close>, or an exception that nothing catches,
  which the interpreter turns into exit status 1.
\<close>

datatype outcome = Exit int | Uncaught exn

fun exit_status :: "outcome \<Rightarrow> int" where
  "exit_status (Exit code) = code"
| "exit_status (Uncaught ex) = 1"

definition main :: "env \<Rightarrow> args \<Rightarrow> state \<Rightarrow> outcome \<times> state" where
  "main e args st =
     (case load_config (arg_config args) st of
        (Inl code, st1) \<Rightarrow> (Exit code, st1)
      | (Inr cfg, st1) \<Rightarrow>
          if arg_init args then
            (Exit 0, print (Edit_to_configure (arg_config args)) (print Configuration_initialized st1))
          else
            (case BackupManager e cfg st1 of
               Inl ex \<Rightarrow> (Uncaught ex, st1)
             | Inr (manager_config, st2) \<Rightarrow>
                 (case run_backup e manager_config st2 of
                    (success, failed, st3) \<Rightarrow> (Exit (if failed = 0 then 0 else 1), st3))))"

subsection \<open>Example inputs\<close>

text \<open>
  Concrete environments, states and documents on which the theorems below are run.
  In \<open>quiet_env\<close> no path exists and no executable is installed; in \<open>failing_env\<close>
  every executable is installed and the dump utility exits with status 2; in
  \<open>healthy_env\<close> every path exists, every executable is installed and every run succeeds.
\<close>

definition quiet_env :: env where
  "quiet_env =
     \<lparr>clock = (\<lambda>k. 1700000000 + real k),
      strftime = (\<lambda>t. ''20231114_221320''),
      path_exists = (\<lambda>p. False),
      tar_add = (\<lambda>p. Archived 1024),
      installed = (\<lambda>t. False),
      run_pipe = (\<lambda>cmd pw. \<lparr>dump_returncode = 0, dump_error = [], gzip_returncode = 0,
                               gzip_error = [], written = 2048\<rparr>)\<rparr>"

definition failing_env :: env where
  "failing_env =
     quiet_env\<lparr>installed := (\<lambda>t. True),
               run_pipe := (\<lambda>cmd pw. \<lparr>dump_returncode = 2, dump_error = ''Access denied'',
                                        gzip_returncode = 0, gzip_error = [], written = 20\<rparr>)\<rparr>"

definition empty_state :: state where
  "empty_state = \<lparr>files = [], logged = [], spawned = [], tick = 0, config = Absent\<rparr>"

definition blog_site :: website where
  "blog_site = \<lparr>w_name = ''blog'', w_path = ''/srv/blog'', w_enabled = Some True\<rparr>"

definition shop_db :: database where
  "shop_db =
     \<lparr>db_name = ''shop'', db_type = Some ''MySQL'', db_host = ''localhost'',
      db_port = Some 3306, db_user = ''backup'', db_password = ''secret'',
      db_database = ''shop'', db_enabled = Some True\<rparr>"

definition one_database :: "database \<Rightarrow> configuration" where
  "one_database db =
     \<lparr>backup_dir = ''./backups'', retention_days = Some 7, compression = None,
      websites = None, databases = Some [db], notification = None\<rparr>"

definition healthy_env :: env where
  "healthy_env = quiet_env\<lparr>path_exists := (\<lambda>p. True), installed := (\<lambda>t. True)\<rparr>"

definition one_website :: "website \<Rightarrow> configuration" where
  "one_website w =
     \<lparr>backup_dir = ''./backups'', retention_days = Some 7, compression = None,
      websites = Some [w], databases = None, notification = None\<rparr>"

text \<open>
  \<open>configured cfg\<close>: an empty backup directory and the document \<open>cfg\<close> at the
  configuration path; \<open>started cfg\<close>: the same once \<^verbatim>\<open>BackupManager\<close> has been
  constructed at time \<open>1700000000\<close>.
\<close>

definition configured :: "configuration \<Rightarrow> state" where
  "configured cfg = empty_state\<lparr>config := Document cfg\<rparr>"

definition started :: "configuration \<Rightarrow> state" where
  "started cfg =
     \<lparr>files = [(''logs'', \<lparr>is_file = False, st_mtime = 1700000000, st_size = 0\<rparr>)],
      logged = [], spawned = [], tick = 2, config = Document cfg\<rparr>"

definition init_args :: args where
  "init_args = \<lparr>arg_config = ''backup_config.json'', arg_init = True\<rparr>"

definition run_args :: args where
  "run_args = \<lparr>arg_config = ''backup_config.json'', arg_init = False\<rparr>"

text \<open>
  A backup directory read at time \<open>1700000000\<close>: an archive eight days old, a dump six
  days old, a text file a year old, and the log directory.
\<close>

definition aged_state :: state where
  "aged_state =
     empty_state\<lparr>files :=
       [(''blog_website_20231106_221320.tar.gz'',
           \<lparr>is_file = True, st_mtime = 1700000000 - 8 * 86400, st_size = 4096\<rparr>),
        (''shop_mysql_20231108_221320.sql'',
           \<lparr>is_file = True, st_mtime = 1700000000 - 6 * 86400, st_size = 512\<rparr>),
        (''notes.txt'',
           \<lparr>is_file = True, st_mtime = 1700000000 - 365 * 86400, st_size = 10\<rparr>),
        (''logs'',
           \<lparr>is_file = False, st_mtime = 1700000000 - 365 * 86400, st_size = 0\<rparr>)]\<rparr>"




definition ledger_db :: database where
  "ledger_db = shop_db\<lparr>db_name := ''ledger'', db_type := Some ''Oracle'', db_database := ''ledger''\<rparr>"

definition two_databases :: configuration where
  "two_databases = (one_database shop_db)\<lparr>databases := Some [shop_db, ledger_db]\<rparr>"

text \<open>
  A backup directory read at time \<open>1700000000.25\<close> under a retention of 19675 days,
  that is \<open>1699920000\<close> seconds: one archive whose modification time is the double
  next below \<open>80000.25\<close>, so that it lies \<open>1 / 2 ^ 36\<close> seconds beyond the limit.
\<close>

definition rounding_env :: env where
  "rounding_env = quiet_env\<lparr>clock := (\<lambda>k. 1700000000 + 1 / 4)\<rparr>"

definition rounding_config :: configuration where
  "rounding_config = default_config\<lparr>retention_days := Some 19675\<rparr>"

definition rounding_state :: state where
  "rounding_state =
     empty_state\<lparr>files :=
       [(''blog_website_19700101_221320.tar.gz'',
           \<lparr>is_file = True, st_mtime = 80000 + 1 / 4 - 1 / 2 ^ 36, st_size = 4096\<rparr>)]\<rparr>"

text \<open>
  A configuration path that holds the JSON text \<^verbatim>\<open>[]\<close>: it decodes to a list, which
  Python refuses to subscript with a string.
\<close>

definition json_array :: other_value where
  "json_array = Not_an_object ''list indices must be integers or slices, not str''"

definition json_array_state :: state where
  "json_array_state = empty_state\<lparr>config := Other_JSON json_array\<rparr>"

section \<open>Properties\<close>

subsection \<open>Auxiliary facts\<close>

lemma files_logging_info [simp]: "files (logging_info m st) = files st"
  by (simp add: logging_info_def)

lemma files_logging_error [simp]: "files (logging_error m st) = files st"
  by (simp add: logging_error_def)

lemma files_print [simp]: "files (print m st) = files st"
  by (simp add: print_def)

lemma spawned_logging_info [simp]: "spawned (logging_info m st) = spawned st"
  by (simp add: logging_info_def)

lemma spawned_logging_error [simp]: "spawned (logging_error m st) = spawned st"
  by (simp add: logging_error_def)

lemma spawned_print [simp]: "spawned (print m st) = spawned st"
  by (simp add: print_def)

lemma files_unlink [simp]: "files (unlink n st) = AList.delete n (files st)"
  by (simp add: unlink_def)

text \<open>
  Rounding to a double: the result inside one binade; rounding never crosses an integer
  below \<open>2 ^ 53\<close> in absolute value, so such an integer is a double.
\<close>

lemma floor_log2_binade:
  assumes "2 ^ n \<le> x" and "x < 2 ^ Suc n"
  shows "\<lfloor>log 2 x\<rfloor> = int n"
proof -
  have "(0::real) < 2 ^ n" by simp
  with assms(1) have pos: "0 < x" by linarith
  have p1: "2 powr real_of_int (int n) = (2::real) ^ n"
    by (simp add: powr_realpow)
  have e: "real_of_int (int n + 1) = real (Suc n)" by simp
  have "(2::real) powr real (Suc n) = 2 ^ Suc n" by (rule powr_realpow) simp
  then have p2: "2 powr real_of_int (int n + 1) = (2::real) ^ Suc n"
    by (simp only: e)
  have "2 powr real_of_int (int n) \<le> x \<and> x < 2 powr real_of_int (int n + 1)"
    using assms by (simp only: p1 p2) 
  then show ?thesis
    using floor_log_eq_powr_iff [OF pos, of 2 "int n"] by simp
qed

lemma double_binade:
  assumes "2 ^ n \<le> \<bar>x\<bar>" and "\<bar>x\<bar> < 2 ^ Suc n" and "n \<le> 52"
  shows "double x = of_int (round_half_even (x * 2 ^ (52 - n))) / 2 ^ (52 - n)"
proof -
  have "(0::real) < 2 ^ n" by simp
  with assms(1) have nz: "x \<noteq> 0" by linarith
  have fl: "\<lfloor>log 2 \<bar>x\<bar>\<rfloor> = int n"
    using assms(1,2) by (rule floor_log2_binade)
  have "real_of_int (int n) - 52 = - real (52 - n)"
    using assms(3) by simp
  then have "2 powr (real_of_int (int n) - 52) = 2 powr (- real (52 - n))"
    by (simp only:)
  also have "\<dots> = 1 / 2 powr real (52 - n)"
    by (rule powr_minus_divide)
  also have "2 powr real (52 - n) = (2::real) ^ (52 - n)"
    by (rule powr_realpow) simp
  finally have ulp: "2 powr (real_of_int (int n) - 52) = 1 / 2 ^ (52 - n)" .
  have "double x = (let ulp = 2 powr (real_of_int (int n) - 52)
            in of_int (round_half_even (x / ulp)) * ulp)"
    using nz by (simp only: double_def fl if_False)
  also have "\<dots> = of_int (round_half_even (x * 2 ^ (52 - n))) / 2 ^ (52 - n)"
    by (simp only: ulp Let_def) simp
  finally show ?thesis .
qed

lemma round_half_even_ge: "of_int j \<le> y \<Longrightarrow> j \<le> round_half_even y"
proof -
  assume "of_int j \<le> y"
  then have "j \<le> \<lfloor>y\<rfloor>" by (simp add: le_floor_iff)
  then show ?thesis by (simp add: round_half_even_def Let_def)
qed

lemma round_half_even_le:
  assumes "y \<le> of_int j"
  shows "round_half_even y \<le> j"
proof (cases "y = of_int \<lfloor>y\<rfloor>")
  case True
  then have "of_int \<lfloor>y\<rfloor> \<le> (of_int j :: real)" using assms by simp
  then have "\<lfloor>y\<rfloor> \<le> j" by (simp only: of_int_le_iff)
  moreover have "round_half_even y = \<lfloor>y\<rfloor>"
    using True by (simp add: round_half_even_def Let_def)
  ultimately show ?thesis by simp
next
  case False
  have "of_int \<lfloor>y\<rfloor> \<le> y" by (rule of_int_floor_le)
  with False have "of_int \<lfloor>y\<rfloor> < y" by (auto simp add: less_le)
  with assms have "of_int \<lfloor>y\<rfloor> < (of_int j :: real)" by linarith
  then have "\<lfloor>y\<rfloor> < j" by (simp only: of_int_less_iff)
  moreover have "round_half_even y \<le> \<lfloor>y\<rfloor> + 1"
    by (simp add: round_half_even_def Let_def)
  ultimately show ?thesis by linarith
qed

lemma ulp_cases:
  assumes "x \<noteq> 0"
  obtains (small) m where "(2::real) powr (of_int \<lfloor>log 2 \<bar>x\<bar>\<rfloor> - 52) = 1 / 2 ^ m"
  | (large) m where "(2::real) powr (of_int \<lfloor>log 2 \<bar>x\<bar>\<rfloor> - 52) = 2 ^ Suc m"
      and "2 ^ 53 * 2 ^ m \<le> \<bar>x\<bar>"
proof (cases "\<lfloor>log 2 \<bar>x\<bar>\<rfloor> \<le> 52")
  case True
  define m where "m = nat (52 - \<lfloor>log 2 \<bar>x\<bar>\<rfloor>)"
  have "real_of_int \<lfloor>log 2 \<bar>x\<bar>\<rfloor> - 52 = - real m"
    using True by (simp add: m_def)
  then have "2 powr (of_int \<lfloor>log 2 \<bar>x\<bar>\<rfloor> - 52) = 2 powr (- real m)"
    by (simp only:)
  also have "\<dots> = 1 / 2 powr real m"
    by (rule powr_minus_divide)
  also have "2 powr real m = (2::real) ^ m"
    by (rule powr_realpow) simp
  finally show ?thesis by (rule that(1))
next
  case False
  define m where "m = nat (\<lfloor>log 2 \<bar>x\<bar>\<rfloor> - 53)"
  have e: "real_of_int \<lfloor>log 2 \<bar>x\<bar>\<rfloor> = real (53 + m)"
    using False by (simp add: m_def)
  have "real_of_int \<lfloor>log 2 \<bar>x\<bar>\<rfloor> - 52 = real (Suc m)"
    using False by (simp add: m_def)
  then have "2 powr (of_int \<lfloor>log 2 \<bar>x\<bar>\<rfloor> - 52) = 2 powr real (Suc m)"
    by (simp only:)
  also have "\<dots> = (2::real) ^ Suc m"
    by (rule powr_realpow) simp
  finally have u: "(2::real) powr (of_int \<lfloor>log 2 \<bar>x\<bar>\<rfloor> - 52) = 2 ^ Suc m" .
  have pos: "0 < \<bar>x\<bar>" using assms by simp
  have "2 powr real_of_int \<lfloor>log 2 \<bar>x\<bar>\<rfloor> \<le> \<bar>x\<bar>"
    using floor_log_eq_powr_iff [OF pos, of 2 "\<lfloor>log 2 \<bar>x\<bar>\<rfloor>"] by simp
  then have "2 powr real (53 + m) \<le> \<bar>x\<bar>"
    by (simp only: e)
  moreover have "2 powr real (53 + m) = (2::real) ^ (53 + m)"
    by (rule powr_realpow) simp
  moreover have "(2::real) ^ (53 + m) = 2 ^ 53 * 2 ^ m"
    by (rule power_add)
  ultimately have "2 ^ 53 * 2 ^ m \<le> \<bar>x\<bar>"
    by (simp only:)
  with u show ?thesis by (rule that(2))
qed

lemma double_ge_int:
  assumes "\<bar>k\<bar> < 2 ^ 53" and "of_int k \<le> x"
  shows "of_int k \<le> double x"
proof (cases "x = 0")
  case True
  then show ?thesis using assms(2) by (simp add: double_def)
next
  case False
  then show ?thesis
  proof (cases rule: ulp_cases)
    case (small m)
    have d: "double x = of_int (round_half_even (x * 2 ^ m)) / 2 ^ m"
      using False by (simp add: double_def small Let_def)
    have "real_of_int (k * 2 ^ m) \<le> x * 2 ^ m"
      using assms(2) by simp
    then have "k * 2 ^ m \<le> round_half_even (x * 2 ^ m)"
      by (rule round_half_even_ge)
    then have "real_of_int (k * 2 ^ m) \<le> real_of_int (round_half_even (x * 2 ^ m))"
      by (simp only: of_int_le_iff)
    then have "real_of_int k * 2 ^ m \<le> real_of_int (round_half_even (x * 2 ^ m))"
      by simp
    then have "real_of_int k \<le> real_of_int (round_half_even (x * 2 ^ m)) / 2 ^ m"
      by (simp add: pos_le_divide_eq)
    then show ?thesis by (simp only: d)
  next
    case (large m)
    have d: "double x = of_int (round_half_even (x / 2 ^ Suc m)) * 2 ^ Suc m"
      using False by (simp only: double_def large(1) Let_def if_False)
    have one: "(1::real) \<le> 2 ^ m" by simp
    have big: "(2::real) ^ 53 \<le> 2 ^ 53 * 2 ^ m"
      using one by simp
    have kb: "- (2 ^ 53) < real_of_int k \<and> real_of_int k < 2 ^ 53"
    proof -
      from assms(1) have "- (2 ^ 53) < k \<and> k < 2 ^ 53" by linarith
      then have "real_of_int (- (2 ^ 53)) < real_of_int k \<and> real_of_int k < real_of_int (2 ^ 53)"
        by (simp only: of_int_less_iff)
      then show ?thesis by simp
    qed
    show ?thesis
    proof (cases "0 < x")
      case True
      with large(2) have "2 ^ 53 * 2 ^ m \<le> x" by simp
      then have "2 ^ 52 * 2 ^ Suc m \<le> x" by simp
      moreover have "0 < (2::real) ^ Suc m" by simp
      ultimately have "2 ^ 52 \<le> x / 2 ^ Suc m"
        by (simp only: pos_le_divide_eq)
      then have "real_of_int (2 ^ 52) \<le> x / 2 ^ Suc m" by simp
      then have "2 ^ 52 \<le> round_half_even (x / 2 ^ Suc m)"
        by (rule round_half_even_ge)
      then have "real_of_int (2 ^ 52) \<le> real_of_int (round_half_even (x / 2 ^ Suc m))"
        by (simp only: of_int_le_iff)
      then have "2 ^ 52 * 2 ^ Suc m \<le> real_of_int (round_half_even (x / 2 ^ Suc m)) * 2 ^ Suc m"
        by simp
      then have "2 ^ 53 * 2 ^ m \<le> double x"
        by (simp add: d)
      with big kb show ?thesis by linarith
    next
      case neg: False
      with False have "x < 0" by simp
      with large(2) have "x \<le> - (2 ^ 53 * 2 ^ m)" by simp
      with big kb assms(2) show ?thesis by linarith
    qed
  qed
qed

lemma double_le_int:
  assumes "\<bar>k\<bar> < 2 ^ 53" and "x \<le> of_int k"
  shows "double x \<le> of_int k"
proof (cases "x = 0")
  case True
  then show ?thesis using assms(2) by (simp add: double_def)
next
  case False
  then show ?thesis
  proof (cases rule: ulp_cases)
    case (small m)
    have d: "double x = of_int (round_half_even (x * 2 ^ m)) / 2 ^ m"
      using False by (simp add: double_def small Let_def)
    have "x * 2 ^ m \<le> real_of_int (k * 2 ^ m)"
      using assms(2) by simp
    then have "round_half_even (x * 2 ^ m) \<le> k * 2 ^ m"
      by (rule round_half_even_le)
    then have "real_of_int (round_half_even (x * 2 ^ m)) \<le> real_of_int (k * 2 ^ m)"
      by (simp only: of_int_le_iff)
    then have "real_of_int (round_half_even (x * 2 ^ m)) \<le> real_of_int k * 2 ^ m"
      by simp
    then have "real_of_int (round_half_even (x * 2 ^ m)) / 2 ^ m \<le> real_of_int k"
      by (simp add: pos_divide_le_eq)
    then show ?thesis by (simp only: d)
  next
    case (large m)
    have d: "double x = of_int (round_half_even (x / 2 ^ Suc m)) * 2 ^ Suc m"
      using False by (simp only: double_def large(1) Let_def if_False)
    have one: "(1::real) \<le> 2 ^ m" by simp
    have big: "(2::real) ^ 53 \<le> 2 ^ 53 * 2 ^ m"
      using one by simp
    have kb: "- (2 ^ 53) < real_of_int k \<and> real_of_int k < 2 ^ 53"
    proof -
      from assms(1) have "- (2 ^ 53) < k \<and> k < 2 ^ 53" by linarith
      then have "real_of_int (- (2 ^ 53)) < real_of_int k \<and> real_of_int k < real_of_int (2 ^ 53)"
        by (simp only: of_int_less_iff)
      then show ?thesis by simp
    qed
    show ?thesis
    proof (cases "x < 0")
      case True
      with large(2) have "x \<le> - (2 ^ 53 * 2 ^ m)" by simp
      then have "x \<le> - (2 ^ 52) * 2 ^ Suc m" by simp
      moreover have "0 < (2::real) ^ Suc m" by simp
      ultimately have "x / 2 ^ Suc m \<le> - (2 ^ 52)"
        by (simp only: pos_divide_le_eq)
      then have "x / 2 ^ Suc m \<le> real_of_int (- (2 ^ 52))" by simp
      then have "round_half_even (x / 2 ^ Suc m) \<le> - (2 ^ 52)"
        by (rule round_half_even_le)
      then have "real_of_int (round_half_even (x / 2 ^ Suc m)) \<le> real_of_int (- (2 ^ 52))"
        by (simp only: of_int_le_iff)
      then have "real_of_int (round_half_even (x / 2 ^ Suc m)) * 2 ^ Suc m \<le>
                 real_of_int (- (2 ^ 52)) * 2 ^ Suc m"
        by (rule mult_right_mono) simp
      then have "double x \<le> - (2 ^ 53 * 2 ^ m)"
        by (simp add: d)
      with big kb show ?thesis by linarith
    next
      case pos: False
      with False have "0 < x" by simp
      with large(2) have "2 ^ 53 * 2 ^ m \<le> x" by simp
      with big kb assms(2) show ?thesis by linarith
    qed
  qed
qed

lemma double_of_int:
  assumes "\<bar>k\<bar> < 2 ^ 53"
  shows "double (of_int k) = of_int k"
  using double_ge_int [OF assms, of "of_int k"] double_le_int [OF assms, of "of_int k"]
  by simp

lemma double_one: "double 1 = 1"
  using double_of_int [of 1] by simp

lemma double_numeral: "numeral m < (2::int) ^ 53 \<Longrightarrow> double (numeral m) = numeral m"
  using double_of_int [of "numeral m"] by simp

lemma double_zero: "double 0 = 0"
  by (simp add: double_def)

text \<open>The definitions to unfold when a run is evaluated on a concrete input.\<close>

lemmas model_defs =
  get_default_def logging_info_def logging_error_def print_def exists_def unlink_def
  write_file_def popen_def get_timestamp_def str_int_def str_nat.simps Let_def
  backup_website_def dump_and_compress_def backup_mysql_database_def
  backup_postgresql_database_def backup_database_def cleanup_old_backups_def
  run_backup_def setup_logging_def BackupManager_def create_default_config_def
  load_config_def main_def double_zero double_one double_numeral

lemmas example_defs =
  quiet_env_def failing_env_def healthy_env_def empty_state_def blog_site_def shop_db_def
  one_database_def one_website_def configured_def started_def init_args_def run_args_def
  default_config_def json_array_def json_array_state_def rounding_env_def
  rounding_config_def rounding_state_def

lemma lower_mysql: "lower ''mysql'' = ''mysql''"
  by (simp add: lower_def lower_char_def)

lemma lower_MySQL: "lower ''MySQL'' = ''mysql''"
  by (simp add: lower_def lower_char_def)

lemma lower_MariaDB: "lower ''MariaDB'' = ''mariadb''"
  by (simp add: lower_def lower_char_def)

lemma lower_POSTGRES: "lower ''POSTGRES'' = ''postgres''"
  by (simp add: lower_def lower_char_def)

lemma lower_PostgreSQL: "lower ''PostgreSQL'' = ''postgresql''"
  by (simp add: lower_def lower_char_def)

lemma lower_Oracle: "lower ''Oracle'' = ''oracle''"
  by (simp add: lower_def lower_char_def)


lemma backup_databases_append:
  "backup_databases e (xs @ ys) s f st =
     (case backup_databases e xs s f st of (s', f', st') \<Rightarrow> backup_databases e ys s' f' st')"
  by (induction xs arbitrary: s f st) (auto split: prod.splits)

text \<open>
  Whether a target fails does not depend on the state it is run in: it is decided by the
  document and the environment. So the counts that \<^verbatim>\<open>run_backup\<close> returns are the
  numbers of targets that succeed and that fail, counted from zero.
\<close>

lemma backup_website_result_state:
  "(fst (backup_website e w a) = None) = (fst (backup_website e w b) = None)"
  by (simp add: backup_website_def get_timestamp_def Let_def split: archive_outcome.splits)

lemma backup_mysql_result_state:
  "(fst (backup_mysql_database e d a) = None) = (fst (backup_mysql_database e d b) = None)"
  by (simp add: backup_mysql_database_def dump_and_compress_def get_timestamp_def Let_def
      split: option.splits)

lemma backup_postgresql_result_state:
  "(fst (backup_postgresql_database e d a) = None) =
   (fst (backup_postgresql_database e d b) = None)"
  by (simp add: backup_postgresql_database_def dump_and_compress_def get_timestamp_def Let_def)

lemma backup_database_result_state:
  "(fst (backup_database e d a) = None) = (fst (backup_database e d b) = None)"
  using backup_mysql_result_state [of e d a b] backup_postgresql_result_state [of e d a b]
  by (simp add: backup_database_def Let_def)

lemma backup_websites_counts:
  "fst (backup_websites e ws s f st) =
     s + length (filter (\<lambda>w. fst (backup_website e w st0) \<noteq> None) ws)
   \<and> fst (snd (backup_websites e ws s f st)) =
     f + length (filter (\<lambda>w. fst (backup_website e w st0) = None) ws)"
proof (induction ws arbitrary: s f st)
  case Nil
  show ?case by simp
next
  case (Cons w ws)
  obtain r st' where r: "backup_website e w st = (r, st')"
    by (cases "backup_website e w st")
  have "(r = None) = (fst (backup_website e w st0) = None)"
    using backup_website_result_state [of e w st st0] r by simp
  then show ?case
    using r Cons.IH [of "s + 1" f st'] Cons.IH [of s "f + 1" st'] by simp
qed

lemma backup_databases_counts:
  "fst (backup_databases e ds s f st) =
     s + length (filter (\<lambda>d. fst (backup_database e d st0) \<noteq> None) ds)
   \<and> fst (snd (backup_databases e ds s f st)) =
     f + length (filter (\<lambda>d. fst (backup_database e d st0) = None) ds)"
proof (induction ds arbitrary: s f st)
  case Nil
  show ?case by simp
next
  case (Cons d ds)
  obtain r st' where r: "backup_database e d st = (r, st')"
    by (cases "backup_database e d st")
  have "(r = None) = (fst (backup_database e d st0) = None)"
    using backup_database_result_state [of e d st st0] r by simp
  then show ?case
    using r Cons.IH [of "s + 1" f st'] Cons.IH [of s "f + 1" st'] by simp
qed

lemma run_backup_counts:
  "fst (run_backup e cfg st) =
     length (filter (\<lambda>w. fst (backup_website e w st0) \<noteq> None) (get_default (websites cfg) []))
     + length (filter (\<lambda>d. fst (backup_database e d st0) \<noteq> None) (get_default (databases cfg) []))
   \<and> fst (snd (run_backup e cfg st)) =
     length (filter (\<lambda>w. fst (backup_website e w st0) = None) (get_default (websites cfg) []))
     + length (filter (\<lambda>d. fst (backup_database e d st0) = None) (get_default (databases cfg) []))"
proof -
  let ?st1 = "logging_info Rule (logging_info Starting_backup_process (logging_info Rule st))"
  obtain s1 f1 st2 where w: "backup_websites e (get_default (websites cfg) []) 0 0 ?st1 = (s1, f1, st2)"
    by (cases "backup_websites e (get_default (websites cfg) []) 0 0 ?st1") auto
  obtain s2 f2 st3 where d: "backup_databases e (get_default (databases cfg) []) s1 f1 st2 = (s2, f2, st3)"
    by (cases "backup_databases e (get_default (databases cfg) []) s1 f1 st2") auto
  have r1: "fst (run_backup e cfg st) = s2" and r2: "fst (snd (run_backup e cfg st)) = f2"
    by (simp_all add: run_backup_def Let_def w d)
  have a: "s1 = length (filter (\<lambda>w. fst (backup_website e w st0) \<noteq> None) (get_default (websites cfg) []))
         \<and> f1 = length (filter (\<lambda>w. fst (backup_website e w st0) = None) (get_default (websites cfg) []))"
    using backup_websites_counts [of e "get_default (websites cfg) []" 0 0 ?st1 st0] w by simp
  have b: "s2 = s1 + length (filter (\<lambda>d. fst (backup_database e d st0) \<noteq> None) (get_default (databases cfg) []))
         \<and> f2 = f1 + length (filter (\<lambda>d. fst (backup_database e d st0) = None) (get_default (databases cfg) []))"
    using backup_databases_counts [of e "get_default (databases cfg) []" s1 f1 st2 st0] d by simp
  show ?thesis
    unfolding r1 r2 using a b by simp
qed

text \<open>
  What the loop of the sweep leaves of an entry: it is removed exactly when its name was
  listed, it is a regular file, its suffix is recognised and its age, the rounded
  difference, exceeds the limit.
\<close>

lemma sweep_files:
  "map_of (files (snd (snd (sweep t r ns rc fr st)))) n =
     (case map_of (files st) n of
        None \<Rightarrow> None
      | Some f \<Rightarrow>
          if n \<in> set ns \<and> is_file f \<and> suffix n \<in> set [''.gz'', ''.sql'', ''.tar'']
             \<and> double (t - st_mtime f) > real_of_int r
          then None else Some f)"
proof (induction ns arbitrary: rc fr st)
  case Nil
  then show ?case by (simp split: option.splits)
next
  case (Cons a ns)
  show ?case
  proof (cases "map_of (files st) a")
    case None
    then show ?thesis using Cons.IH [of rc fr st] by (auto split: option.splits)
  next
    case (Some b)
    show ?thesis
    proof (cases "is_file b \<and> suffix a \<in> set [''.gz'', ''.sql'', ''.tar'']
                  \<and> double (t - st_mtime b) > real_of_int r")
      case True
      then show ?thesis
        using Some
              Cons.IH [of "rc + 1" "fr + st_size b"
                          "logging_info (Removed_old_backup a) (unlink a st)"]
        by (auto simp add: Let_def delete_conv' split: option.splits)
    next
      case False
      then show ?thesis
        using Some Cons.IH [of rc fr st]
        by (auto simp add: Let_def split: option.splits)
    qed
  qed
qed

lemma cleanup_files:
  "map_of (files (cleanup_old_backups e cfg st)) n =
     (case map_of (files st) n of
        None \<Rightarrow> None
      | Some f \<Rightarrow>
          if is_file f \<and> suffix n \<in> set [''.gz'', ''.sql'', ''.tar'']
             \<and> double (clock e (tick st) - st_mtime f)
                 > real_of_int (get_default (retention_days cfg) 7 * 24 * 3600)
          then None else Some f)"
proof -
  let ?st2 = "logging_info (Cleaning_up_backups_older_than (get_default (retention_days cfg) 7))
                (st\<lparr>tick := tick st + 1\<rparr>)"
  let ?r = "sweep (clock e (tick st)) (get_default (retention_days cfg) 7 * 24 * 3600)
              (map fst (files ?st2)) 0 0 ?st2"
  have a: "files (cleanup_old_backups e cfg st) = files (snd (snd ?r))"
    by (simp add: cleanup_old_backups_def Let_def split: prod.splits)
  have b: "files ?st2 = files st"
    by simp
  have c: "map_of (files st) n = Some f \<Longrightarrow> n \<in> set (map fst (files st))" for f
    by (metis map_of_eq_None_iff option.distinct(1) set_map)
  show ?thesis
    unfolding a sweep_files b using c by (auto split: option.splits)
qed

text \<open>The sweep starts no process and creates no entry.\<close>

lemma spawned_sweep: "spawned (snd (snd (sweep t r ns rc fr st))) = spawned st"
  by (induction ns arbitrary: rc fr st)
     (simp_all add: Let_def unlink_def split: option.splits)

lemma spawned_cleanup: "spawned (cleanup_old_backups e cfg st) = spawned st"
proof -
  let ?st2 = "logging_info (Cleaning_up_backups_older_than (get_default (retention_days cfg) 7))
                (st\<lparr>tick := tick st + 1\<rparr>)"
  let ?r = "sweep (clock e (tick st)) (get_default (retention_days cfg) 7 * 24 * 3600)
              (map fst (files ?st2)) 0 0 ?st2"
  have "spawned (cleanup_old_backups e cfg st) = spawned (snd (snd ?r))"
    by (simp add: cleanup_old_backups_def Let_def split: prod.splits)
  also have "\<dots> = spawned ?st2"
    by (rule spawned_sweep)
  also have "\<dots> = spawned st"
    by simp
  finally show ?thesis .
qed

lemma cleanup_creates_nothing:
  "map_of (files st) n = None \<Longrightarrow> map_of (files (cleanup_old_backups e cfg st)) n = None"
  by (simp add: cleanup_files)

subsection \<open>Website targets\<close>



subsection \<open>Database dispatch\<close>

text \<open>
  Claim C6. For an enabled database the dispatch reads the type through
  \<^verbatim>\<open>lower()\<close>, so letter case is ignored: \<^verbatim>\<open>mysql\<close> and \<^verbatim>\<open>mariadb\<close> run
  the MySQL path, \<^verbatim>\<open>postgresql\<close> and \<^verbatim>\<open>postgres\<close> the PostgreSQL path. Any other
  value logs an error and returns \<open>None\<close> with the backup directory and the list of
  started processes unchanged, and the loop goes on with the failure count raised by one.
  For the orchestrator: the counts that \<^verbatim>\<open>run_backup\<close> returns are those of the run
  without the target, with the failure count one higher and the success count the same;
  when the target is the only one, \<^verbatim>\<open>run_backup\<close> returns success count 0 and
  failure count 1, starts no process, and the backup directory holds no name after the
  run that it did not hold before.
\<close>

theorem database_dispatch_on_lowered_type:
  assumes "get_default (db_enabled db) False"
  shows "(lower (get_default (db_type db) ''mysql'') \<in> {''mysql'', ''mariadb''} \<longrightarrow>
            backup_database e db st = backup_mysql_database e db st)
       \<and> (lower (get_default (db_type db) ''mysql'') \<in> {''postgresql'', ''postgres''} \<longrightarrow>
            backup_database e db st = backup_postgresql_database e db st)
       \<and> (lower (get_default (db_type db) ''mysql'')
              \<notin> {''mysql'', ''mariadb'', ''postgresql'', ''postgres''} \<longrightarrow>
            backup_database e db st =
              (None,
               logging_error
                 (Unsupported_database_type (lower (get_default (db_type db) ''mysql''))) st)
            \<and> files (snd (backup_database e db st)) = files st
            \<and> spawned (snd (backup_database e db st)) = spawned st
            \<and> backup_databases e (before @ db # after) s f st =
                (case backup_databases e before s f st of
                   (s', f', st') \<Rightarrow>
                     backup_databases e after s' (f' + 1)
                       (logging_error
                          (Unsupported_database_type (lower (get_default (db_type db) ''mysql'')))
                          st'))
            \<and> (get_default (databases cfg) [] = before @ db # after \<longrightarrow>
                 fst (run_backup e cfg st) =
                   fst (run_backup e (cfg\<lparr>databases := Some (before @ after)\<rparr>) st)
                 \<and> fst (snd (run_backup e cfg st)) =
                   fst (snd (run_backup e (cfg\<lparr>databases := Some (before @ after)\<rparr>) st)) + 1)
            \<and> (get_default (websites cfg) [] = [] \<and> get_default (databases cfg) [] = [db] \<longrightarrow>
                 fst (run_backup e cfg st) = 0
                 \<and> fst (snd (run_backup e cfg st)) = 1
                 \<and> spawned (snd (snd (run_backup e cfg st))) = spawned st
                 \<and> (map_of (files st) n = None \<longrightarrow>
                      map_of (files (snd (snd (run_backup e cfg st)))) n = None)))"
proof -
  let ?t = "lower (get_default (db_type db) ''mysql'')"
  have c1: "?t \<in> {''mysql'', ''mariadb''} \<longrightarrow>
              backup_database e db st = backup_mysql_database e db st"
    using assms by (auto simp add: backup_database_def Let_def)
  have c2: "?t \<in> {''postgresql'', ''postgres''} \<longrightarrow>
              backup_database e db st = backup_postgresql_database e db st"
    using assms by (auto simp add: backup_database_def Let_def)
  have c3: "backup_database e db st = (None, logging_error (Unsupported_database_type ?t) st)
          \<and> files (snd (backup_database e db st)) = files st
          \<and> spawned (snd (backup_database e db st)) = spawned st
          \<and> backup_databases e (before @ db # after) s f st =
              (case backup_databases e before s f st of
                 (s', f', st') \<Rightarrow>
                   backup_databases e after s' (f' + 1)
                     (logging_error (Unsupported_database_type ?t) st'))
          \<and> (get_default (databases cfg) [] = before @ db # after \<longrightarrow>
               fst (run_backup e cfg st) =
                 fst (run_backup e (cfg\<lparr>databases := Some (before @ after)\<rparr>) st)
               \<and> fst (snd (run_backup e cfg st)) =
                 fst (snd (run_backup e (cfg\<lparr>databases := Some (before @ after)\<rparr>) st)) + 1)
          \<and> (get_default (websites cfg) [] = [] \<and> get_default (databases cfg) [] = [db] \<longrightarrow>
               fst (run_backup e cfg st) = 0
               \<and> fst (snd (run_backup e cfg st)) = 1
               \<and> spawned (snd (snd (run_backup e cfg st))) = spawned st
               \<and> (map_of (files st) n = None \<longrightarrow>
                    map_of (files (snd (snd (run_backup e cfg st)))) n = None))"
    if other: "?t \<notin> {''mysql'', ''mariadb'', ''postgresql'', ''postgres''}"
  proof -
    have one: "backup_database e db st' =
                 (None, logging_error (Unsupported_database_type ?t) st')" for st'
      using assms other by (simp add: backup_database_def Let_def)
    have d1: "backup_database e db st = (None, logging_error (Unsupported_database_type ?t) st)"
      by (rule one)
    have d2: "files (snd (backup_database e db st)) = files st"
      by (simp add: one)
    have d3: "spawned (snd (backup_database e db st)) = spawned st"
      by (simp add: one)
    have d4: "backup_databases e (before @ db # after) s f st =
                (case backup_databases e before s f st of
                   (s', f', st') \<Rightarrow>
                     backup_databases e after s' (f' + 1)
                       (logging_error (Unsupported_database_type ?t) st'))"
      by (simp add: one backup_databases_append split: prod.splits)
    have d5: "get_default (databases cfg) [] = before @ db # after \<longrightarrow>
               fst (run_backup e cfg st) =
                 fst (run_backup e (cfg\<lparr>databases := Some (before @ after)\<rparr>) st)
               \<and> fst (snd (run_backup e cfg st)) =
                 fst (snd (run_backup e (cfg\<lparr>databases := Some (before @ after)\<rparr>) st)) + 1"
    proof
      assume ds: "get_default (databases cfg) [] = before @ db # after"
      let ?cfg' = "cfg\<lparr>databases := Some (before @ after)\<rparr>"
      have ds': "get_default (Some (before @ after)) [] = before @ after"
        by (simp add: get_default_def)
      show "fst (run_backup e cfg st) = fst (run_backup e ?cfg' st)
          \<and> fst (snd (run_backup e cfg st)) = fst (snd (run_backup e ?cfg' st)) + 1"
        using run_backup_counts [of e cfg st st] run_backup_counts [of e ?cfg' st st]
        by (simp add: ds ds' one)
    qed
    have d6: "get_default (websites cfg) [] = [] \<and> get_default (databases cfg) [] = [db] \<longrightarrow>
               fst (run_backup e cfg st) = 0
               \<and> fst (snd (run_backup e cfg st)) = 1
               \<and> spawned (snd (snd (run_backup e cfg st))) = spawned st
               \<and> (map_of (files st) n = None \<longrightarrow>
                    map_of (files (snd (snd (run_backup e cfg st)))) n = None)"
    proof
      assume h: "get_default (websites cfg) [] = [] \<and> get_default (databases cfg) [] = [db]"
      have "run_backup e cfg st =
              (0, 1,
               logging_info Rule
                 (logging_info (Backup_process_completed 0 1)
                    (logging_info Rule
                       (cleanup_old_backups e cfg
                          (logging_error (Unsupported_database_type ?t)
                             (logging_info Rule
                                (logging_info Starting_backup_process (logging_info Rule st))))))))"
        using h by (simp add: run_backup_def Let_def one)
      then show "fst (run_backup e cfg st) = 0
               \<and> fst (snd (run_backup e cfg st)) = 1
               \<and> spawned (snd (snd (run_backup e cfg st))) = spawned st
               \<and> (map_of (files st) n = None \<longrightarrow>
                    map_of (files (snd (snd (run_backup e cfg st)))) n = None)"
        by (simp add: cleanup_creates_nothing spawned_cleanup)
    qed
    show ?thesis
      by (intro conjI d1 d2 d3 d4 d5 d6)
  qed
  show ?thesis
    using c1 c2 c3 by blast
qed

theorem database_dispatch_on_lowered_type_witness:
  "get_default (db_enabled shop_db) False
   \<and> lower (get_default (db_type (shop_db\<lparr>db_type := Some ''MariaDB''\<rparr>)) ''mysql'') = ''mariadb''
   \<and> backup_database quiet_env (shop_db\<lparr>db_type := Some ''MariaDB''\<rparr>) empty_state =
       backup_mysql_database quiet_env (shop_db\<lparr>db_type := Some ''MariaDB''\<rparr>) empty_state
   \<and> lower (get_default (db_type (shop_db\<lparr>db_type := Some ''POSTGRES''\<rparr>)) ''mysql'') = ''postgres''
   \<and> backup_database quiet_env (shop_db\<lparr>db_type := Some ''POSTGRES''\<rparr>) empty_state =
       backup_postgresql_database quiet_env (shop_db\<lparr>db_type := Some ''POSTGRES''\<rparr>) empty_state
   \<and> get_default (db_enabled ledger_db) False
   \<and> lower (get_default (db_type ledger_db) ''mysql'') = ''oracle''
   \<and> fst (backup_database healthy_env ledger_db empty_state) = None
   \<and> files (snd (backup_database healthy_env ledger_db empty_state)) = []
   \<and> spawned (snd (backup_database healthy_env ledger_db empty_state)) = []
   \<and> fst (snd (backup_databases healthy_env ([] @ ledger_db # []) 0 0 empty_state)) = 1
   \<and> get_default (databases two_databases) [] = [shop_db] @ ledger_db # []
   \<and> run_backup healthy_env (two_databases\<lparr>databases := Some ([shop_db] @ [])\<rparr>)
         (started two_databases) =
       (1, 0, snd (snd (run_backup healthy_env (two_databases\<lparr>databases := Some ([shop_db] @ [])\<rparr>)
                          (started two_databases))))
   \<and> fst (run_backup healthy_env two_databases (started two_databases)) = 1
   \<and> fst (snd (run_backup healthy_env two_databases (started two_databases))) = 1
   \<and> get_default (websites (one_database ledger_db)) [] = []
   \<and> get_default (databases (one_database ledger_db)) [] = [ledger_db]
   \<and> fst (run_backup healthy_env (one_database ledger_db) (started (one_database ledger_db))) = 0
   \<and> fst (snd (run_backup healthy_env (one_database ledger_db) (started (one_database ledger_db)))) = 1
   \<and> spawned (snd (snd (run_backup healthy_env (one_database ledger_db)
                            (started (one_database ledger_db))))) = []
   \<and> map_of (files (started (one_database ledger_db))) ''ledger_mysql_20231114_221320.sql.gz'' = None
   \<and> map_of (files (snd (snd (run_backup healthy_env (one_database ledger_db)
                                  (started (one_database ledger_db))))))
         ''ledger_mysql_20231114_221320.sql.gz'' = None"
proof -
  let ?one = "one_database ledger_db"
  let ?rest = "two_databases\<lparr>databases := Some ([shop_db] @ [])\<rparr>"
  have en: "get_default (db_enabled (shop_db\<lparr>db_type := Some t\<rparr>)) False" for t
    by (simp add: get_default_def shop_db_def)
  have l1: "lower (get_default (db_type (shop_db\<lparr>db_type := Some ''MariaDB''\<rparr>)) ''mysql'') = ''mariadb''"
    by (simp add: get_default_def lower_MariaDB)
  have l2: "lower (get_default (db_type (shop_db\<lparr>db_type := Some ''POSTGRES''\<rparr>)) ''mysql'') = ''postgres''"
    by (simp add: get_default_def lower_POSTGRES)
  have l3: "lower (get_default (db_type ledger_db) ''mysql'') = ''oracle''"
    by (simp add: get_default_def ledger_db_def lower_Oracle)
  have l3': "lower (get_default (db_type ledger_db) ''mysql'')
               \<notin> {''mysql'', ''mariadb'', ''postgresql'', ''postgres''}"
    by (simp add: l3)
  have en3: "get_default (db_enabled ledger_db) False"
    by (simp add: get_default_def ledger_db_def shop_db_def)
  have a: "backup_database quiet_env (shop_db\<lparr>db_type := Some ''MariaDB''\<rparr>) empty_state =
           backup_mysql_database quiet_env (shop_db\<lparr>db_type := Some ''MariaDB''\<rparr>) empty_state"
    using database_dispatch_on_lowered_type
            [where db = "shop_db\<lparr>db_type := Some ''MariaDB''\<rparr>" and e = quiet_env
               and st = empty_state, OF en] l1
    by simp
  have b: "backup_database quiet_env (shop_db\<lparr>db_type := Some ''POSTGRES''\<rparr>) empty_state =
           backup_postgresql_database quiet_env (shop_db\<lparr>db_type := Some ''POSTGRES''\<rparr>) empty_state"
    using database_dispatch_on_lowered_type
            [where db = "shop_db\<lparr>db_type := Some ''POSTGRES''\<rparr>" and e = quiet_env
               and st = empty_state, OF en] l2
    by simp
  have c: "fst (backup_database healthy_env ledger_db empty_state) = None
     \<and> files (snd (backup_database healthy_env ledger_db empty_state)) = []
     \<and> spawned (snd (backup_database healthy_env ledger_db empty_state)) = []
     \<and> fst (snd (backup_databases healthy_env ([] @ ledger_db # []) 0 0 empty_state)) = 1"
    using database_dispatch_on_lowered_type
            [where db = ledger_db and e = healthy_env and st = empty_state
               and before = "[]" and after = "[]" and s = 0 and f = 0, OF en3] l3'
    by (simp add: empty_state_def)
  have h3: "get_default (databases two_databases) [] = [shop_db] @ ledger_db # []"
    by (simp add: two_databases_def get_default_def)
  have h4: "get_default (websites ?one) [] = [] \<and> get_default (databases ?one) [] = [ledger_db]"
    by (simp add: one_database_def get_default_def)
  have h5: "map_of (files (started ?one)) ''ledger_mysql_20231114_221320.sql.gz'' = None"
    by (simp add: started_def)
  have h6: "spawned (started ?one) = []"
    by (simp add: started_def)
  have rest: "fst (run_backup healthy_env ?rest (started two_databases)) = 1
            \<and> fst (snd (run_backup healthy_env ?rest (started two_databases))) = 0"
    by (simp add: model_defs example_defs two_databases_def suffix_def lower_MySQL)
  have rest': "run_backup healthy_env ?rest (started two_databases) =
                 (1, 0, snd (snd (run_backup healthy_env ?rest (started two_databases))))"
    using rest by (metis prod.collapse)
  have r2: "fst (run_backup healthy_env two_databases (started two_databases)) = 1
          \<and> fst (snd (run_backup healthy_env two_databases (started two_databases))) = 1"
    using database_dispatch_on_lowered_type
            [where db = ledger_db and e = healthy_env and cfg = two_databases
               and before = "[shop_db]" and after = "[]" and st = "started two_databases",
             OF en3]
          l3' h3 rest
    by simp
  have r3: "fst (run_backup healthy_env ?one (started ?one)) = 0
          \<and> fst (snd (run_backup healthy_env ?one (started ?one))) = 1
          \<and> spawned (snd (snd (run_backup healthy_env ?one (started ?one)))) = spawned (started ?one)
          \<and> map_of (files (snd (snd (run_backup healthy_env ?one (started ?one)))))
                ''ledger_mysql_20231114_221320.sql.gz'' = None"
    using database_dispatch_on_lowered_type
            [where db = ledger_db and e = healthy_env and cfg = ?one and st = "started ?one"
               and n = "''ledger_mysql_20231114_221320.sql.gz''", OF en3]
          l3' h4 h5
    by blast
  have d: "get_default (db_enabled shop_db) False"
    by (simp add: get_default_def shop_db_def)
  show ?thesis
    using a b c d en3 l1 l2 l3 h3 h4 h5 h6 rest' r2 r3 by (intro conjI) simp_all
qed

text \<open>
  Claim C10. An enabled database whose document has no \<^verbatim>\<open>type\<close> key is backed up
  through the MySQL path: \<^verbatim>\<open>get('type', 'mysql')\<close> supplies the default before the
  dispatch, so the target is not rejected as unsupported.
\<close>

theorem missing_type_runs_mysql_path:
  assumes "get_default (db_enabled db) False" and "db_type db = None"
  shows "backup_database e db st = backup_mysql_database e db st"
  using assms by (simp add: backup_database_def get_default_def lower_mysql)

theorem missing_type_runs_mysql_path_witness:
  "get_default (db_enabled (shop_db\<lparr>db_type := None\<rparr>)) False
   \<and> db_type (shop_db\<lparr>db_type := None\<rparr>) = None
   \<and> backup_database failing_env (shop_db\<lparr>db_type := None\<rparr>) empty_state =
       backup_mysql_database failing_env (shop_db\<lparr>db_type := None\<rparr>) empty_state
   \<and> spawned (snd (backup_database failing_env (shop_db\<lparr>db_type := None\<rparr>) empty_state)) =
       [[''mysqldump'', ''--host=localhost'', ''--port=3306'', ''--user=backup'',
         ''--password=secret'', ''--single-transaction'', ''--quick'', ''--lock-tables=false'',
         ''shop''],
        [''gzip'']]"
proof -
  have h1: "get_default (db_enabled (shop_db\<lparr>db_type := None\<rparr>)) False"
    by (simp add: get_default_def shop_db_def)
  have h2: "db_type (shop_db\<lparr>db_type := None\<rparr>) = None"
    by simp
  have run: "spawned (snd (backup_mysql_database failing_env (shop_db\<lparr>db_type := None\<rparr>) empty_state)) =
       [[''mysqldump'', ''--host=localhost'', ''--port=3306'', ''--user=backup'',
         ''--password=secret'', ''--single-transaction'', ''--quick'', ''--lock-tables=false'',
         ''shop''],
        [''gzip'']]"
    by (simp add: model_defs failing_env_def quiet_env_def shop_db_def empty_state_def)
  from missing_type_runs_mysql_path [OF h1 h2, of failing_env empty_state]
  show ?thesis using h1 h2 run by simp
qed

subsection \<open>Loading the configuration\<close>

text \<open>
  Claim C5, as the claim states it, fails for a file that the JSON decoder accepts and
  that is not a configuration document: \<^verbatim>\<open>load_config\<close> catches the decoder's
  error only and returns whatever was decoded. With the file \<^verbatim>\<open>[]\<close> it returns the
  list, and the process started with \<^verbatim>\<open>--init\<close> exits with status 0.
\<close>

theorem init_on_json_of_another_shape_exits_0:
  "config json_array_state = Other_JSON json_array
   \<and> load_config ''backup_config.json'' json_array_state = (Inr (Other json_array), json_array_state)
   \<and> fst (main quiet_env init_args json_array_state) = Exit 0
   \<and> exit_status (fst (main quiet_env init_args json_array_state)) = 0"
  by (simp add: main_def load_config_def print_def init_args_def json_array_state_def
        empty_state_def)

text \<open>
  Claim C5, amended. When the configuration path holds nothing, \<^verbatim>\<open>load_config\<close>
  writes the default document to it and returns that document, and every website and
  database of the default document is disabled. When the path holds text that the JSON
  decoder rejects, \<^verbatim>\<open>load_config\<close> exits with status 1 and so does the process,
  whatever the command line. Whatever the decoder accepts is returned as it is, with no
  check of its shape and nothing written: a configuration document, and also a value
  that is not an object or an object without \<^verbatim>\<open>backup_dir\<close>. On such a value the
  process exits with status 0 under \<^verbatim>\<open>--init\<close>, and otherwise ends, with the state
  as it was, in the exception that \<^verbatim>\<open>config['backup_dir']\<close> raises and nothing
  catches.
\<close>

theorem load_config_checks_the_decoder_only:
  "(config st = Absent \<longrightarrow>
      fst (load_config p st) = Inr (Config default_config)
      \<and> config (snd (load_config p st)) = Document default_config
      \<and> files (snd (load_config p st)) = files st)
   \<and> (\<forall>w \<in> set (get_default (websites default_config) []). \<not> get_default (w_enabled w) False)
   \<and> (\<forall>d \<in> set (get_default (databases default_config) []). \<not> get_default (db_enabled d) False)
   \<and> (config st = Invalid_JSON \<longrightarrow>
      fst (load_config p st) = Inl 1
      \<and> config (snd (load_config p st)) = Invalid_JSON
      \<and> fst (main e (args\<lparr>arg_config := p\<rparr>) st) = Exit 1
      \<and> exit_status (fst (main e (args\<lparr>arg_config := p\<rparr>) st)) \<noteq> 0)
   \<and> (config st = Document c \<longrightarrow> load_config p st = (Inr (Config c), st))
   \<and> (config st = Other_JSON v \<longrightarrow>
      load_config p st = (Inr (Other v), st)
      \<and> (arg_init args \<longrightarrow> fst (main e (args\<lparr>arg_config := p\<rparr>) st) = Exit 0)
      \<and> (\<not> arg_init args \<longrightarrow>
           main e (args\<lparr>arg_config := p\<rparr>) st =
             (Uncaught (case v of
                          Not_an_object text \<Rightarrow> TypeError text
                        | Object_without_backup_dir \<Rightarrow> KeyError ''backup_dir''), st)
           \<and> exit_status (fst (main e (args\<lparr>arg_config := p\<rparr>) st)) = 1))"
  by (simp add: load_config_def create_default_config_def print_def logging_error_def
        main_def BackupManager_def default_config_def get_default_def Let_def
      split: other_value.splits)

theorem load_config_checks_the_decoder_only_witness:
  "config empty_state = Absent
   \<and> fst (load_config ''backup_config.json'' empty_state) = Inr (Config default_config)
   \<and> config (snd (load_config ''backup_config.json'' empty_state)) = Document default_config
   \<and> set (get_default (websites default_config) []) \<noteq> {}
   \<and> set (get_default (databases default_config) []) \<noteq> {}
   \<and> config (empty_state\<lparr>config := Invalid_JSON\<rparr>) = Invalid_JSON
   \<and> fst (load_config ''backup_config.json'' (empty_state\<lparr>config := Invalid_JSON\<rparr>)) = Inl 1
   \<and> exit_status (fst (main quiet_env run_args (empty_state\<lparr>config := Invalid_JSON\<rparr>))) = 1
   \<and> config (configured (one_website blog_site)) = Document (one_website blog_site)
   \<and> load_config ''backup_config.json'' (configured (one_website blog_site)) =
       (Inr (Config (one_website blog_site)), configured (one_website blog_site))
   \<and> config json_array_state = Other_JSON json_array
   \<and> load_config ''backup_config.json'' json_array_state = (Inr (Other json_array), json_array_state)
   \<and> arg_init init_args
   \<and> fst (main quiet_env init_args json_array_state) = Exit 0
   \<and> \<not> arg_init run_args
   \<and> main quiet_env run_args json_array_state =
       (Uncaught (TypeError ''list indices must be integers or slices, not str''), json_array_state)
   \<and> exit_status (fst (main quiet_env run_args json_array_state)) = 1"
proof -
  let ?p = "''backup_config.json''"
  let ?site = "one_website blog_site"
  have h1: "config empty_state = Absent"
    by (simp add: empty_state_def)
  have h2: "config (empty_state\<lparr>config := Invalid_JSON\<rparr>) = Invalid_JSON"
    by simp
  have h3: "set (get_default (websites default_config) []) \<noteq> {}"
           "set (get_default (databases default_config) []) \<noteq> {}"
    by (simp_all add: default_config_def get_default_def)
  have h4: "run_args\<lparr>arg_config := ?p\<rparr> = run_args" "init_args\<lparr>arg_config := ?p\<rparr> = init_args"
    by (simp_all add: run_args_def init_args_def)
  have h5: "config (configured ?site) = Document ?site"
    by (simp add: configured_def)
  have h6: "config json_array_state = Other_JSON json_array"
    by (simp add: json_array_state_def)
  have h7: "arg_init init_args" "\<not> arg_init run_args"
    by (simp_all add: init_args_def run_args_def)
  have r1: "fst (load_config ?p empty_state) = Inr (Config default_config)
          \<and> config (snd (load_config ?p empty_state)) = Document default_config"
    using load_config_checks_the_decoder_only [of empty_state ?p] h1 by blast
  have r2: "fst (load_config ?p (empty_state\<lparr>config := Invalid_JSON\<rparr>)) = Inl 1
          \<and> fst (main quiet_env run_args (empty_state\<lparr>config := Invalid_JSON\<rparr>)) = Exit 1"
    using load_config_checks_the_decoder_only
            [of "empty_state\<lparr>config := Invalid_JSON\<rparr>" ?p quiet_env run_args] h2 h4
    by simp
  have r3: "load_config ?p (configured ?site) = (Inr (Config ?site), configured ?site)"
    using load_config_checks_the_decoder_only [of "configured ?site" ?p _ _ ?site] h5 by blast
  have r4: "load_config ?p json_array_state = (Inr (Other json_array), json_array_state)
          \<and> fst (main quiet_env init_args json_array_state) = Exit 0"
    using load_config_checks_the_decoder_only
            [of json_array_state ?p quiet_env init_args _ json_array] h4 h6 h7
    by simp
  have r5: "main quiet_env run_args json_array_state =
              (Uncaught (TypeError ''list indices must be integers or slices, not str''),
               json_array_state)
          \<and> exit_status (fst (main quiet_env run_args json_array_state)) = 1"
    using load_config_checks_the_decoder_only
            [of json_array_state ?p quiet_env run_args _ json_array] h4 h6 h7
    by (simp add: json_array_def)
  show ?thesis
    using h1 h2 h3 h5 h6 h7 r1 r2 r3 r4 r5 by simp
qed

subsection \<open>Exit status\<close>

text \<open>
  Claim C8, as the claim states it, fails for \<^verbatim>\<open>--init\<close>: the configuration is
  loaded before the flag is looked at, so with a configuration file that is not JSON the
  process exits with status 1, and with a file that decodes nothing is created.
\<close>

theorem init_on_invalid_json_exits_1:
  "fst (main quiet_env init_args (empty_state\<lparr>config := Invalid_JSON\<rparr>)) = Exit 1
   \<and> fst (main quiet_env init_args (empty_state\<lparr>config := Invalid_JSON\<rparr>)) \<noteq> Exit 0
   \<and> config (snd (main quiet_env init_args (empty_state\<lparr>config := Invalid_JSON\<rparr>))) = Invalid_JSON"
  by (simp add: main_def load_config_def logging_error_def init_args_def empty_state_def)

text \<open>
  Claim C8, amended. A run that reaches the orchestrator exits with 0 when the failure
  count it returns is 0 and with 1 when it is greater. With \<^verbatim>\<open>--init\<close> and a
  configuration path that holds nothing or JSON that decodes, the process exits with 0 and
  runs no backup (the backup directory, the started processes and the clock readings
  are untouched); the default document is written when the path held nothing, and an
  existing file that decodes is left as it is. With \<^verbatim>\<open>--init\<close> and a file that is not JSON
  the process exits with 1.
\<close>

theorem exit_status_of_main:
  "(\<not> arg_init args \<and> load_config (arg_config args) st = (Inr d, st1)
      \<and> BackupManager e d st1 = Inr (cfg, st2)
      \<and> run_backup e cfg st2 = (success, failed, st3) \<longrightarrow>
        fst (main e args st) = Exit (if failed = 0 then 0 else 1)
        \<and> (failed = 0 \<longrightarrow> exit_status (fst (main e args st)) = 0)
        \<and> (failed > 0 \<longrightarrow> exit_status (fst (main e args st)) = 1))
   \<and> (arg_init args \<and> config st \<noteq> Invalid_JSON \<longrightarrow>
        fst (main e args st) = Exit 0
        \<and> files (snd (main e args st)) = files st
        \<and> spawned (snd (main e args st)) = spawned st
        \<and> tick (snd (main e args st)) = tick st
        \<and> (config st = Absent \<longrightarrow> config (snd (main e args st)) = Document default_config)
        \<and> (config st \<noteq> Absent \<longrightarrow> config (snd (main e args st)) = config st))
   \<and> (arg_init args \<and> config st = Invalid_JSON \<longrightarrow> fst (main e args st) = Exit 1)"
  by (cases "config st")
     (auto simp add: main_def load_config_def create_default_config_def print_def
        logging_error_def Let_def split: sum.splits)

theorem exit_status_of_main_witness:
  "\<not> arg_init run_args
   \<and> load_config (arg_config run_args) (configured (one_website blog_site)) =
       (Inr (Config (one_website blog_site)), configured (one_website blog_site))
   \<and> BackupManager healthy_env (Config (one_website blog_site))
         (configured (one_website blog_site)) =
       Inr (one_website blog_site, started (one_website blog_site))
   \<and> fst (snd (run_backup healthy_env (one_website blog_site) (started (one_website blog_site)))) = 0
   \<and> exit_status (fst (main healthy_env run_args (configured (one_website blog_site)))) = 0
   \<and> load_config (arg_config run_args) (configured default_config) =
       (Inr (Config default_config), configured default_config)
   \<and> BackupManager quiet_env (Config default_config) (configured default_config) =
       Inr (default_config, started default_config)
   \<and> fst (snd (run_backup quiet_env default_config (started default_config))) = 2
   \<and> exit_status (fst (main quiet_env run_args (configured default_config))) = 1
   \<and> arg_init init_args
   \<and> config empty_state = Absent
   \<and> fst (main quiet_env init_args empty_state) = Exit 0
   \<and> config (snd (main quiet_env init_args empty_state)) = Document default_config
   \<and> files (snd (main quiet_env init_args empty_state)) = []
   \<and> config (configured (one_website blog_site)) = Document (one_website blog_site)
   \<and> fst (main quiet_env init_args (configured (one_website blog_site))) = Exit 0
   \<and> config (snd (main quiet_env init_args (configured (one_website blog_site)))) =
       Document (one_website blog_site)
   \<and> config (empty_state\<lparr>config := Invalid_JSON\<rparr>) = Invalid_JSON
   \<and> fst (main healthy_env init_args (empty_state\<lparr>config := Invalid_JSON\<rparr>)) = Exit 1"
proof -
  let ?site = "one_website blog_site"
  have a1: "\<not> arg_init run_args"
    by (simp add: run_args_def)
  have a2: "load_config (arg_config run_args) (configured cfg) = (Inr (Config cfg), configured cfg)"
    for cfg
    by (simp add: load_config_def configured_def)
  have a3: "BackupManager healthy_env (Config ?site) (configured ?site) = Inr (?site, started ?site)"
    by (simp add: BackupManager_def setup_logging_def example_defs)
  have a4: "fst (snd (run_backup healthy_env ?site (started ?site))) = 0"
    by (simp add: model_defs example_defs suffix_def)
  have a5: "run_backup healthy_env ?site (started ?site) =
              (fst (run_backup healthy_env ?site (started ?site)), 0,
               snd (snd (run_backup healthy_env ?site (started ?site))))"
    using a4 by (metis prod.collapse)
  have b3: "BackupManager quiet_env (Config default_config) (configured default_config) =
              Inr (default_config, started default_config)"
    by (simp add: BackupManager_def setup_logging_def example_defs)
  have b4: "fst (snd (run_backup quiet_env default_config (started default_config))) = 2"
    by (simp add: model_defs example_defs suffix_def)
  have b5: "run_backup quiet_env default_config (started default_config) =
              (fst (run_backup quiet_env default_config (started default_config)), 2,
               snd (snd (run_backup quiet_env default_config (started default_config))))"
    using b4 by (metis prod.collapse)
  have c1: "arg_init init_args"
    by (simp add: init_args_def)
  have c2: "config empty_state = Absent" "files empty_state = []"
    by (simp_all add: empty_state_def)
  have c3: "config (configured ?site) = Document ?site"
    by (simp add: configured_def)
  have c4: "config (empty_state\<lparr>config := Invalid_JSON\<rparr>) = Invalid_JSON"
    by simp
  have r1: "exit_status (fst (main healthy_env run_args (configured ?site))) = 0"
    using exit_status_of_main
            [where args = run_args and st = "configured ?site" and d = "Config ?site"
               and cfg = ?site and ?st1.0 = "configured ?site" and e = healthy_env and ?st2.0 = "started ?site"
               and success = "fst (run_backup healthy_env ?site (started ?site))"
               and failed = 0
               and ?st3.0 = "snd (snd (run_backup healthy_env ?site (started ?site)))"]
          a1 a2 a3 a5
    by simp
  have r2: "exit_status (fst (main quiet_env run_args (configured default_config))) = 1"
    using exit_status_of_main
            [where args = run_args and st = "configured default_config"
               and d = "Config default_config" and cfg = default_config and ?st1.0 = "configured default_config" and e = quiet_env
               and ?st2.0 = "started default_config"
               and success = "fst (run_backup quiet_env default_config (started default_config))"
               and failed = 2
               and ?st3.0 = "snd (snd (run_backup quiet_env default_config (started default_config)))"]
          a1 a2 b3 b5
    by simp
  have r3: "fst (main quiet_env init_args empty_state) = Exit 0
          \<and> config (snd (main quiet_env init_args empty_state)) = Document default_config
          \<and> files (snd (main quiet_env init_args empty_state)) = []"
    using exit_status_of_main [where args = init_args and st = empty_state and e = quiet_env]
          c1 c2
    by simp
  have r4: "fst (main quiet_env init_args (configured ?site)) = Exit 0
          \<and> config (snd (main quiet_env init_args (configured ?site))) = Document ?site"
    using exit_status_of_main [where args = init_args and st = "configured ?site" and e = quiet_env]
          c1 c3
    by simp
  have r5: "fst (main healthy_env init_args (empty_state\<lparr>config := Invalid_JSON\<rparr>)) = Exit 1"
    using exit_status_of_main
            [where args = init_args and st = "empty_state\<lparr>config := Invalid_JSON\<rparr>"
               and e = healthy_env]
          c1 c4
    by simp
  show ?thesis
    using a1 a2 a3 a4 b3 b4 c1 c2 c3 c4 r1 r2 r3 r4 r5 by simp
qed

subsection \<open>Retention sweep\<close>

text \<open>
  Claim C4, as the claim states it, fails by the rounding of the subtraction. The clock
  reads \<open>1700000000.25\<close>, the retention is 19675 days, that is \<open>1699920000\<close>
  seconds, and an archive was modified at the double next below \<open>80000.25\<close>. Its
  modification time lies before the current time less the retention, but the age that
  the program computes is the double nearest to \<open>1699920000 + 1 / 2 ^ 36\<close>, which is
  \<open>1699920000\<close> and does not exceed the limit: the sweep keeps the file.
\<close>

theorem sweep_keeps_file_older_than_limit:
  "map_of (files rounding_state) ''blog_website_19700101_221320.tar.gz'' =
     Some \<lparr>is_file = True, st_mtime = 80000 + 1 / 4 - 1 / 2 ^ 36, st_size = 4096\<rparr>
   \<and> suffix ''blog_website_19700101_221320.tar.gz'' = ''.gz''
   \<and> clock rounding_env (tick rounding_state) = 1700000000 + 1 / 4
   \<and> get_default (retention_days rounding_config) 7 * 86400 = 1699920000
   \<and> double (1700000000 + 1 / 4) = 1700000000 + 1 / 4
   \<and> double (80000 + 1 / 4 - 1 / 2 ^ 36) = 80000 + 1 / 4 - 1 / 2 ^ 36
   \<and> (80000 + 1 / 4 - 1 / 2 ^ 36 :: real)
       < clock rounding_env (tick rounding_state)
         - real_of_int (get_default (retention_days rounding_config) 7 * 86400)
   \<and> double (clock rounding_env (tick rounding_state) - (80000 + 1 / 4 - 1 / 2 ^ 36)) = 1699920000
   \<and> map_of (files (cleanup_old_backups rounding_env rounding_config rounding_state))
         ''blog_website_19700101_221320.tar.gz'' =
       Some \<lparr>is_file = True, st_mtime = 80000 + 1 / 4 - 1 / 2 ^ 36, st_size = 4096\<rparr>"
proof -
  let ?f = "\<lparr>is_file = True, st_mtime = 80000 + 1 / 4 - 1 / 2 ^ 36, st_size = 4096\<rparr>"
  have f: "map_of (files rounding_state) ''blog_website_19700101_221320.tar.gz'' = Some ?f"
    by (simp add: rounding_state_def empty_state_def)
  have s: "suffix ''blog_website_19700101_221320.tar.gz'' = ''.gz''"
    by (simp add: suffix_def)
  have t: "clock rounding_env (tick rounding_state) = 1700000000 + 1 / 4"
    by (simp add: rounding_env_def quiet_env_def)
  have r: "get_default (retention_days rounding_config) 7 * 86400 = 1699920000"
    by (simp add: rounding_config_def get_default_def)
  have d1: "double (1700000000 + 1 / 4) = 1700000000 + 1 / 4"
    using double_binade [of 30 "1700000000 + 1 / 4"] by (simp add: round_half_even_def)
  have d2: "double (80000 + 1 / 4 - 1 / 2 ^ 36) = 80000 + 1 / 4 - 1 / 2 ^ 36"
    using double_binade [of 16 "80000 + 1 / 4 - 1 / 2 ^ 36"] by (simp add: round_half_even_def)
  have d3: "double (1700000000 + 1 / 4 - (80000 + 1 / 4 - 1 / 2 ^ 36)) = 1699920000"
    using double_binade [of 30 "1700000000 + 1 / 4 - (80000 + 1 / 4 - 1 / 2 ^ 36)"]
    by (simp add: round_half_even_def)
  have b: "(80000 + 1 / 4 - 1 / 2 ^ 36 :: real)
             < clock rounding_env (tick rounding_state)
               - real_of_int (get_default (retention_days rounding_config) 7 * 86400)"
    by (simp add: t r)
  have a: "double (clock rounding_env (tick rounding_state) - (80000 + 1 / 4 - 1 / 2 ^ 36)) =
             1699920000"
    by (simp only: t d3)
  have r': "get_default (retention_days rounding_config) 7 * 24 * 3600 = 1699920000"
    by (simp add: rounding_config_def get_default_def)
  have m: "st_mtime ?f = 80000 + 1 / 4 - 1 / 2 ^ 36"
    by (simp only: entry.select_convs)
  have "\<not> real_of_int (get_default (retention_days rounding_config) 7 * 24 * 3600)
            < double (clock rounding_env (tick rounding_state) - st_mtime ?f)"
    by (simp only: m a r')
  then have k: "map_of (files (cleanup_old_backups rounding_env rounding_config rounding_state))
                  ''blog_website_19700101_221320.tar.gz'' = Some ?f"
    unfolding cleanup_files f by (simp only: option.case simp_thms if_False)
  show ?thesis
    by (intro conjI f s t r d1 d2 b a k)
qed

text \<open>
  Claim C4, amended. Take a regular file \<open>f\<close> named \<open>n\<close> in the backup directory,
  and let the current time be the clock reading that \<^verbatim>\<open>cleanup_old_backups\<close>
  makes. After the sweep the file is gone exactly when its suffix is one of
  \<^verbatim>\<open>.gz\<close>, \<^verbatim>\<open>.sql\<close>, \<^verbatim>\<open>.tar\<close> and its age as the program computes it, the
  double nearest to the current time less the modification time, exceeds
  \<^verbatim>\<open>retention_days * 86400\<close>; otherwise it is there as it was. When the
  difference is itself a double, that is the comparison of the modification time with
  the current time less the retention. With \<^verbatim>\<open>retention_days = days \<ge> 0\<close> (and
  the limit below \<open>2 ^ 53\<close> seconds), rounding matters only within the second that
  follows the limit: a recognised file whose modification time lies at least one second
  beyond the limit is removed, and a file whose modification time lies at the limit or
  after it stays. In particular a recognised file dated \<open>days + 1\<close> days back is
  removed and a file dated \<open>days - 1\<close> days back stays. A file with another suffix
  stays whatever its age.
\<close>

theorem retention_sweep_removes_by_rounded_age:
  assumes "map_of (files st) n = Some f" and "is_file f"
  shows "((map_of (files (cleanup_old_backups e cfg st)) n = None) =
            (suffix n \<in> {''.gz'', ''.sql'', ''.tar''}
             \<and> real_of_int (get_default (retention_days cfg) 7 * 86400)
                 < double (clock e (tick st) - st_mtime f)))
       \<and> (\<not> (suffix n \<in> {''.gz'', ''.sql'', ''.tar''}
              \<and> real_of_int (get_default (retention_days cfg) 7 * 86400)
                  < double (clock e (tick st) - st_mtime f)) \<longrightarrow>
            map_of (files (cleanup_old_backups e cfg st)) n = Some f)
       \<and> (double (clock e (tick st) - st_mtime f) = clock e (tick st) - st_mtime f \<longrightarrow>
            (map_of (files (cleanup_old_backups e cfg st)) n = None) =
              (suffix n \<in> {''.gz'', ''.sql'', ''.tar''}
               \<and> st_mtime f
                   < clock e (tick st) - real_of_int (get_default (retention_days cfg) 7 * 86400)))
       \<and> (0 \<le> days \<and> (days + 1) * 86400 < 2 ^ 53 \<and> retention_days cfg = Some days
            \<and> suffix n \<in> {''.gz'', ''.sql'', ''.tar''}
            \<and> st_mtime f \<le> clock e (tick st) - real_of_int (days * 86400 + 1) \<longrightarrow>
            map_of (files (cleanup_old_backups e cfg st)) n = None)
       \<and> (0 \<le> days \<and> (days + 1) * 86400 < 2 ^ 53 \<and> retention_days cfg = Some days
            \<and> clock e (tick st) - real_of_int (days * 86400) \<le> st_mtime f \<longrightarrow>
            map_of (files (cleanup_old_backups e cfg st)) n = Some f)
       \<and> (0 \<le> days \<and> (days + 1) * 86400 < 2 ^ 53 \<and> retention_days cfg = Some days
            \<and> suffix n \<in> {''.gz'', ''.sql'', ''.tar''}
            \<and> st_mtime f = clock e (tick st) - real_of_int ((days + 1) * 86400) \<longrightarrow>
            map_of (files (cleanup_old_backups e cfg st)) n = None)
       \<and> (0 \<le> days \<and> (days + 1) * 86400 < 2 ^ 53 \<and> retention_days cfg = Some days
            \<and> st_mtime f = clock e (tick st) - real_of_int ((days - 1) * 86400) \<longrightarrow>
            map_of (files (cleanup_old_backups e cfg st)) n = Some f)
       \<and> (suffix n \<notin> {''.gz'', ''.sql'', ''.tar''} \<longrightarrow>
            map_of (files (cleanup_old_backups e cfg st)) n = Some f)"
proof -
  let ?gone = "map_of (files (cleanup_old_backups e cfg st)) n"
  let ?now = "clock e (tick st)"
  let ?age = "double (?now - st_mtime f)"
  let ?lim = "get_default (retention_days cfg) 7 * 86400"
  let ?ok = "suffix n \<in> {''.gz'', ''.sql'', ''.tar''}"
  have cf: "?gone = (if ?ok \<and> real_of_int ?lim < ?age then None else Some f)"
    using assms by (simp add: cleanup_files)
  have lim: "?lim = days * 86400" if "retention_days cfg = Some days"
    using that by (simp add: get_default_def)
  have above: "real_of_int (days * 86400) < ?age"
    if "0 \<le> days" "(days + 1) * 86400 < 2 ^ 53"
       "st_mtime f \<le> ?now - real_of_int (days * 86400 + 1)"
  proof -
    from that(1,2) have "\<bar>days * 86400 + 1\<bar> < 2 ^ 53" by simp
    moreover from that(3) have "real_of_int (days * 86400 + 1) \<le> ?now - st_mtime f" by linarith
    ultimately have "real_of_int (days * 86400 + 1) \<le> ?age" by (rule double_ge_int)
    then show ?thesis by simp
  qed
  have below: "?age \<le> real_of_int (days * 86400)"
    if "0 \<le> days" "(days + 1) * 86400 < 2 ^ 53"
       "?now - real_of_int (days * 86400) \<le> st_mtime f"
  proof -
    from that(1,2) have "\<bar>days * 86400\<bar> < 2 ^ 53" by simp
    moreover from that(3) have "?now - st_mtime f \<le> real_of_int (days * 86400)" by linarith
    ultimately show ?thesis by (rule double_le_int)
  qed
  have c1: "(?gone = None) = (?ok \<and> real_of_int ?lim < ?age)"
    by (simp add: cf)
  have c2: "\<not> (?ok \<and> real_of_int ?lim < ?age) \<longrightarrow> ?gone = Some f"
    by (simp add: cf)
  have c3: "?age = ?now - st_mtime f \<longrightarrow>
              (?gone = None) = (?ok \<and> st_mtime f < ?now - real_of_int ?lim)"
  proof
    assume "?age = ?now - st_mtime f"
    then have "(real_of_int ?lim < ?age) = (st_mtime f < ?now - real_of_int ?lim)"
      by linarith
    then show "(?gone = None) = (?ok \<and> st_mtime f < ?now - real_of_int ?lim)"
      by (simp only: c1)
  qed
  have c4: "0 \<le> days \<and> (days + 1) * 86400 < 2 ^ 53 \<and> retention_days cfg = Some days \<and> ?ok
            \<and> st_mtime f \<le> ?now - real_of_int (days * 86400 + 1) \<longrightarrow> ?gone = None"
  proof
    assume h: "0 \<le> days \<and> (days + 1) * 86400 < 2 ^ 53 \<and> retention_days cfg = Some days \<and> ?ok
               \<and> st_mtime f \<le> ?now - real_of_int (days * 86400 + 1)"
    then have "real_of_int (days * 86400) < ?age" using above by blast
    moreover from h have "?lim = days * 86400" using lim by blast
    ultimately have "?ok \<and> real_of_int ?lim < ?age" using h by (simp only:) 
    then show "?gone = None" by (simp only: c1)
  qed
  have c5: "0 \<le> days \<and> (days + 1) * 86400 < 2 ^ 53 \<and> retention_days cfg = Some days
            \<and> ?now - real_of_int (days * 86400) \<le> st_mtime f \<longrightarrow> ?gone = Some f"
  proof
    assume h: "0 \<le> days \<and> (days + 1) * 86400 < 2 ^ 53 \<and> retention_days cfg = Some days
               \<and> ?now - real_of_int (days * 86400) \<le> st_mtime f"
    then have "?age \<le> real_of_int (days * 86400)" using below by blast
    moreover from h have "?lim = days * 86400" using lim by blast
    ultimately have "\<not> real_of_int ?lim < ?age" by (simp only: not_less)
    then have "\<not> (?ok \<and> real_of_int ?lim < ?age)" by blast
    with c2 show "?gone = Some f" by blast
  qed
  have c6: "0 \<le> days \<and> (days + 1) * 86400 < 2 ^ 53 \<and> retention_days cfg = Some days \<and> ?ok
            \<and> st_mtime f = ?now - real_of_int ((days + 1) * 86400) \<longrightarrow> ?gone = None"
  proof
    assume h: "0 \<le> days \<and> (days + 1) * 86400 < 2 ^ 53 \<and> retention_days cfg = Some days \<and> ?ok
               \<and> st_mtime f = ?now - real_of_int ((days + 1) * 86400)"
    then have "st_mtime f \<le> ?now - real_of_int (days * 86400 + 1)" by simp
    with h c4 show "?gone = None" by blast
  qed
  have c7: "0 \<le> days \<and> (days + 1) * 86400 < 2 ^ 53 \<and> retention_days cfg = Some days
            \<and> st_mtime f = ?now - real_of_int ((days - 1) * 86400) \<longrightarrow> ?gone = Some f"
  proof
    assume h: "0 \<le> days \<and> (days + 1) * 86400 < 2 ^ 53 \<and> retention_days cfg = Some days
               \<and> st_mtime f = ?now - real_of_int ((days - 1) * 86400)"
    then have "?now - real_of_int (days * 86400) \<le> st_mtime f" by simp
    with h c5 show "?gone = Some f" by blast
  qed
  have c8: "\<not> ?ok \<longrightarrow> ?gone = Some f"
    using c2 by blast
  show ?thesis
    by (intro conjI c1 c2 c3 c4 c5 c6 c7 c8)
qed

theorem retention_sweep_removes_by_rounded_age_witness:
  "map_of (files aged_state) ''blog_website_20231106_221320.tar.gz'' =
     Some \<lparr>is_file = True, st_mtime = 1700000000 - 8 * 86400, st_size = 4096\<rparr>
   \<and> suffix ''blog_website_20231106_221320.tar.gz'' = ''.gz''
   \<and> retention_days default_config = Some 7
   \<and> (7 + 1) * 86400 < (2::int) ^ 53
   \<and> (1700000000 - 8 * 86400 :: real)
       = clock quiet_env (tick aged_state) - real_of_int ((7 + 1) * 86400)
   \<and> (1700000000 - 8 * 86400 :: real)
       \<le> clock quiet_env (tick aged_state) - real_of_int (7 * 86400 + 1)
   \<and> map_of (files (cleanup_old_backups quiet_env default_config aged_state))
       ''blog_website_20231106_221320.tar.gz'' = None
   \<and> map_of (files aged_state) ''shop_mysql_20231108_221320.sql'' =
       Some \<lparr>is_file = True, st_mtime = 1700000000 - 6 * 86400, st_size = 512\<rparr>
   \<and> suffix ''shop_mysql_20231108_221320.sql'' = ''.sql''
   \<and> (1700000000 - 6 * 86400 :: real)
       = clock quiet_env (tick aged_state) - real_of_int ((7 - 1) * 86400)
   \<and> map_of (files (cleanup_old_backups quiet_env default_config aged_state))
       ''shop_mysql_20231108_221320.sql'' =
       Some \<lparr>is_file = True, st_mtime = 1700000000 - 6 * 86400, st_size = 512\<rparr>
   \<and> map_of (files aged_state) ''notes.txt'' =
       Some \<lparr>is_file = True, st_mtime = 1700000000 - 365 * 86400, st_size = 10\<rparr>
   \<and> suffix ''notes.txt'' = ''.txt''
   \<and> map_of (files (cleanup_old_backups quiet_env default_config aged_state)) ''notes.txt'' =
       Some \<lparr>is_file = True, st_mtime = 1700000000 - 365 * 86400, st_size = 10\<rparr>
   \<and> map_of (files rounding_state) ''blog_website_19700101_221320.tar.gz'' =
       Some \<lparr>is_file = True, st_mtime = 80000 + 1 / 4 - 1 / 2 ^ 36, st_size = 4096\<rparr>
   \<and> \<not> real_of_int (get_default (retention_days rounding_config) 7 * 86400)
         < double (clock rounding_env (tick rounding_state) - (80000 + 1 / 4 - 1 / 2 ^ 36))
   \<and> map_of (files (cleanup_old_backups rounding_env rounding_config rounding_state))
         ''blog_website_19700101_221320.tar.gz'' =
       Some \<lparr>is_file = True, st_mtime = 80000 + 1 / 4 - 1 / 2 ^ 36, st_size = 4096\<rparr>"
proof -
  let ?old = "\<lparr>is_file = True, st_mtime = 1700000000 - 8 * 86400, st_size = 4096\<rparr>"
  let ?new = "\<lparr>is_file = True, st_mtime = 1700000000 - 6 * 86400, st_size = 512\<rparr>"
  let ?txt = "\<lparr>is_file = True, st_mtime = 1700000000 - 365 * 86400, st_size = 10\<rparr>"
  let ?edge = "\<lparr>is_file = True, st_mtime = 80000 + 1 / 4 - 1 / 2 ^ 36, st_size = 4096\<rparr>"
  let ?after = "files (cleanup_old_backups quiet_env default_config aged_state)"
  have f1: "map_of (files aged_state) ''blog_website_20231106_221320.tar.gz'' = Some ?old"
    by (simp add: aged_state_def empty_state_def)
  have f2: "map_of (files aged_state) ''shop_mysql_20231108_221320.sql'' = Some ?new"
    by (simp add: aged_state_def empty_state_def)
  have f3: "map_of (files aged_state) ''notes.txt'' = Some ?txt"
    by (simp add: aged_state_def empty_state_def)
  have f4: "map_of (files rounding_state) ''blog_website_19700101_221320.tar.gz'' = Some ?edge"
    by (simp add: rounding_state_def empty_state_def)
  have i1: "is_file ?old" and i2: "is_file ?new" and i3: "is_file ?txt" and i4: "is_file ?edge"
    by simp_all
  have s1: "suffix ''blog_website_20231106_221320.tar.gz'' = ''.gz''"
    by (simp add: suffix_def)
  have s2: "suffix ''shop_mysql_20231108_221320.sql'' = ''.sql''"
    by (simp add: suffix_def)
  have s3: "suffix ''notes.txt'' = ''.txt''"
    by (simp add: suffix_def)
  have d: "retention_days default_config = Some 7"
    by (simp add: default_config_def)
  have t: "clock quiet_env (tick aged_state) = 1700000000"
    by (simp add: quiet_env_def aged_state_def empty_state_def)
  have bd: "(7 + 1) * 86400 < (2::int) ^ 53"
    by simp
  have h1: "(0::int) \<le> 7 \<and> (7 + 1) * 86400 < (2::int) ^ 53
            \<and> retention_days default_config = Some 7
            \<and> suffix ''blog_website_20231106_221320.tar.gz'' \<in> {''.gz'', ''.sql'', ''.tar''}
            \<and> st_mtime ?old = clock quiet_env (tick aged_state) - real_of_int ((7 + 1) * 86400)"
    by (simp add: s1 d t)
  have h2: "(0::int) \<le> 7 \<and> (7 + 1) * 86400 < (2::int) ^ 53
            \<and> retention_days default_config = Some 7
            \<and> st_mtime ?new = clock quiet_env (tick aged_state) - real_of_int ((7 - 1) * 86400)"
    by (simp add: d t)
  have h3: "suffix ''notes.txt'' \<notin> {''.gz'', ''.sql'', ''.tar''}"
    by (simp add: s3)
  have d3: "double (1700000000 + 1 / 4 - (80000 + 1 / 4 - 1 / 2 ^ 36)) = 1699920000"
    using double_binade [of 30 "1700000000 + 1 / 4 - (80000 + 1 / 4 - 1 / 2 ^ 36)"]
    by (simp add: round_half_even_def)
  have t4: "clock rounding_env (tick rounding_state) = 1700000000 + 1 / 4"
    by (simp add: rounding_env_def quiet_env_def)
  have r4: "get_default (retention_days rounding_config) 7 * 86400 = 1699920000"
    by (simp add: rounding_config_def get_default_def)
  have h4: "\<not> real_of_int (get_default (retention_days rounding_config) 7 * 86400)
              < double (clock rounding_env (tick rounding_state) - (80000 + 1 / 4 - 1 / 2 ^ 36))"
    by (simp only: t4 d3 r4)
  have h4': "\<not> (suffix ''blog_website_19700101_221320.tar.gz'' \<in> {''.gz'', ''.sql'', ''.tar''}
               \<and> real_of_int (get_default (retention_days rounding_config) 7 * 86400)
                   < double (clock rounding_env (tick rounding_state) - st_mtime ?edge))"
    using h4 by simp
  have r1: "map_of ?after ''blog_website_20231106_221320.tar.gz'' = None"
    using retention_sweep_removes_by_rounded_age
            [OF f1 i1, of quiet_env default_config 7] h1
    by blast
  have r2: "map_of ?after ''shop_mysql_20231108_221320.sql'' = Some ?new"
    using retention_sweep_removes_by_rounded_age
            [OF f2 i2, of quiet_env default_config 7] h2
    by blast
  have r3: "map_of ?after ''notes.txt'' = Some ?txt"
    using retention_sweep_removes_by_rounded_age
            [OF f3 i3, of quiet_env default_config 7] h3
    by blast
  have r4: "map_of (files (cleanup_old_backups rounding_env rounding_config rounding_state))
              ''blog_website_19700101_221320.tar.gz'' = Some ?edge"
    using retention_sweep_removes_by_rounded_age
            [OF f4 i4, of rounding_env rounding_config 0] h4'
    by blast
  have c1: "(1700000000 - 8 * 86400 :: real)
              = clock quiet_env (tick aged_state) - real_of_int ((7 + 1) * 86400)"
    by (simp add: t)
  have c1': "(1700000000 - 8 * 86400 :: real)
              \<le> clock quiet_env (tick aged_state) - real_of_int (7 * 86400 + 1)"
    by (simp add: t)
  have c2: "(1700000000 - 6 * 86400 :: real)
              = clock quiet_env (tick aged_state) - real_of_int ((7 - 1) * 86400)"
    by (simp add: t)
  show ?thesis
    by (intro conjI f1 f2 f3 f4 s1 s2 s3 d bd c1 c1' c2 r1 r2 r3 r4 h4)
qed

subsection \<open>Disabled targets\<close>

text \<open>
  A disabled target is skipped with an informational log line and \<open>None\<close>, the value
  that also stands for a failed backup; the loops of \<^verbatim>\<open>run_backup\<close> test the result
  for truth only, so the skip is counted in \<^verbatim>\<open>fail_count\<close>.
\<close>

lemma disabled_website_is_counted_as_failed:
  assumes "\<not> get_default (w_enabled w) False"
  shows "backup_website e w st = (None, logging_info (Skipping_disabled_website (w_name w)) st)"
    and "backup_websites e (w # rest) s f st =
           backup_websites e rest s (f + 1)
             (logging_info (Skipping_disabled_website (w_name w)) st)"
  using assms by (simp_all add: backup_website_def)

lemma disabled_database_is_counted_as_failed:
  assumes "\<not> get_default (db_enabled d) False"
  shows "backup_database e d st = (None, logging_info (Skipping_disabled_database (db_name d)) st)"
    and "backup_databases e (d # rest) s f st =
           backup_databases e rest s (f + 1)
             (logging_info (Skipping_disabled_database (db_name d)) st)"
  using assms by (simp_all add: backup_database_def)

text \<open>
  Claim C1 does not hold of the code. The default configuration has one disabled website
  and one disabled database; a run on it writes no file, and returns success count 0
  and failure count 2, so the process exits with status 1.
\<close>

theorem disabled_targets_of_default_config_fail:
  "fst (run_backup quiet_env default_config (started default_config)) = 0
   \<and> fst (snd (run_backup quiet_env default_config (started default_config))) = 2
   \<and> files (snd (snd (run_backup quiet_env default_config (started default_config)))) =
       files (started default_config)
   \<and> fst (main quiet_env run_args (configured default_config)) = Exit 1"
  by (simp add: model_defs example_defs suffix_def)

text \<open>
  Claim C9 does not hold of the code either, for the same reason: two runs in a row on
  the default configuration leave the backup directory as it was, and each returns
  success count 0 and failure count 2 rather than 0 and 0.
\<close>

theorem two_runs_with_all_targets_disabled:
  "(case run_backup quiet_env default_config (started default_config) of
      (success1, failed1, st1) \<Rightarrow>
        (case run_backup quiet_env default_config st1 of
           (success2, failed2, st2) \<Rightarrow>
             success1 = 0 \<and> failed1 = 2 \<and> success2 = 0 \<and> failed2 = 2
             \<and> files st1 = files (started default_config)
             \<and> files st2 = files (started default_config)))"
  by (simp add: model_defs example_defs suffix_def)

subsection \<open>Database dumps that fail\<close>

text \<open>
  When both processes of the pipe have been started and one of them exits with a
  non-zero status, the general handler logs the captured error text of the dump utility
  if that one failed, otherwise of \<^verbatim>\<open>gzip\<close>, and removes the destination.
\<close>

lemma exists_logging_error [simp]: "exists n (logging_error m st) = exists n st"
  by (simp add: exists_def)

lemma exists_write_file [simp]: "exists n (write_file e n sz st)"
  by (simp add: exists_def write_file_def update_conv')

lemma not_exists_unlink [simp]: "\<not> exists n (unlink n st)"
  by (simp add: exists_def unlink_def delete_conv')

lemma dump_and_compress_nonzero:
  assumes "installed e tool" and "installed e ''gzip''"
    and "dump_returncode (run_pipe e cmd pw) \<noteq> 0 \<or> gzip_returncode (run_pipe e cmd pw) \<noteq> 0"
  shows "\<exists>st'. dump_and_compress e tool cmd pw name st =
           (Inl (Exception
                   (if dump_returncode (run_pipe e cmd pw) \<noteq> 0
                    then tool @ '' error: '' @ dump_error (run_pipe e cmd pw)
                    else ''gzip error: '' @ gzip_error (run_pipe e cmd pw))), st')
         \<and> exists name st'"
  using assms by (auto simp add: dump_and_compress_def Let_def)

lemma mysql_nonzero_exit_removes_destination:
  assumes "installed e ''mysqldump''" and "installed e ''gzip''" and "db_port db = Some port"
    and "r = run_pipe e
               [''mysqldump'', ''--host='' @ db_host db, ''--port='' @ str_int port,
                ''--user='' @ db_user db, ''--password='' @ db_password db,
                ''--single-transaction'', ''--quick'', ''--lock-tables=false'', db_database db]
               None"
    and "dump_returncode r \<noteq> 0 \<or> gzip_returncode r \<noteq> 0"
  shows "fst (backup_mysql_database e db st) = None
       \<and> \<not> exists (db_name db @ ''_mysql_'' @ strftime e (clock e (tick st)) @ ''.sql.gz'')
              (snd (backup_mysql_database e db st))
       \<and> last (logged (snd (backup_mysql_database e db st))) =
           (ERROR, MySQL_backup_failed
                     (if dump_returncode r \<noteq> 0 then ''mysqldump error: '' @ dump_error r
                      else ''gzip error: '' @ gzip_error r))"
proof -
  let ?cmd = "[''mysqldump'', ''--host='' @ db_host db, ''--port='' @ str_int port,
               ''--user='' @ db_user db, ''--password='' @ db_password db,
               ''--single-transaction'', ''--quick'', ''--lock-tables=false'', db_database db]"
  let ?name = "db_name db @ ''_mysql_'' @ strftime e (clock e (tick st)) @ ''.sql.gz''"
  let ?st2 = "logging_info (Backing_up_MySQL_database (db_database db)) (st\<lparr>tick := tick st + 1\<rparr>)"
  from dump_and_compress_nonzero [OF assms(1) assms(2), of ?cmd None ?name ?st2] assms(4,5)
  obtain st' where
    d: "dump_and_compress e ''mysqldump'' ?cmd None ?name ?st2 =
          (Inl (Exception (if dump_returncode r \<noteq> 0 then ''mysqldump error: '' @ dump_error r
                           else ''gzip error: '' @ gzip_error r)), st')"
    and ex: "exists ?name st'"
    by auto
  show ?thesis
    using assms(3) d ex
    by (simp add: backup_mysql_database_def get_timestamp_def Let_def logging_error_def
          unlink_def exists_def delete_conv')
qed

lemma postgresql_nonzero_exit_removes_destination:
  assumes "installed e ''pg_dump''" and "installed e ''gzip''"
    and "r = run_pipe e
               [''pg_dump'', ''--host='' @ db_host db,
                ''--port='' @ str_int (get_default (db_port db) 5432),
                ''--username='' @ db_user db, ''--format=plain'', ''--no-owner'', ''--no-acl'',
                db_database db]
               (Some (db_password db))"
    and "dump_returncode r \<noteq> 0 \<or> gzip_returncode r \<noteq> 0"
  shows "fst (backup_postgresql_database e db st) = None
       \<and> \<not> exists (db_name db @ ''_postgresql_'' @ strftime e (clock e (tick st)) @ ''.sql.gz'')
              (snd (backup_postgresql_database e db st))
       \<and> last (logged (snd (backup_postgresql_database e db st))) =
           (ERROR, PostgreSQL_backup_failed
                     (if dump_returncode r \<noteq> 0 then ''pg_dump error: '' @ dump_error r
                      else ''gzip error: '' @ gzip_error r))"
proof -
  let ?cmd = "[''pg_dump'', ''--host='' @ db_host db,
               ''--port='' @ str_int (get_default (db_port db) 5432),
               ''--username='' @ db_user db, ''--format=plain'', ''--no-owner'', ''--no-acl'',
               db_database db]"
  let ?name = "db_name db @ ''_postgresql_'' @ strftime e (clock e (tick st)) @ ''.sql.gz''"
  let ?st2 = "logging_info (Backing_up_PostgreSQL_database (db_database db))
                (st\<lparr>tick := tick st + 1\<rparr>)"
  from dump_and_compress_nonzero
         [OF assms(1) assms(2), of ?cmd "Some (db_password db)" ?name ?st2] assms(3,4)
  obtain st' where
    d: "dump_and_compress e ''pg_dump'' ?cmd (Some (db_password db)) ?name ?st2 =
          (Inl (Exception (if dump_returncode r \<noteq> 0 then ''pg_dump error: '' @ dump_error r
                           else ''gzip error: '' @ gzip_error r)), st')"
    and ex: "exists ?name st'"
    by auto
  show ?thesis
    using d ex
    by (simp add: backup_postgresql_database_def get_timestamp_def Let_def logging_error_def
          unlink_def exists_def delete_conv')
qed

text \<open>
  Claim C2 does not hold of the code. With one enabled MySQL target and no
  \<^verbatim>\<open>mysqldump\<close> installed, the run starts no process, counts one failure and logs
  the distinct message about the missing tool; but the destination had been opened for
  writing before \<^verbatim>\<open>Popen\<close> raised, and the handler for \<open>FileNotFoundError\<close>,
  unlike the general handler, does not remove it: a file of zero bytes stays in the
  backup directory.
\<close>

theorem missing_mysqldump_run_keeps_empty_file:
  "fst (run_backup quiet_env (one_database shop_db) (started (one_database shop_db))) = 0
   \<and> fst (snd (run_backup quiet_env (one_database shop_db) (started (one_database shop_db)))) = 1
   \<and> (ERROR, Mysqldump_not_found)
       \<in> set (logged (snd (snd (run_backup quiet_env (one_database shop_db)
                                    (started (one_database shop_db))))))
   \<and> spawned (snd (snd (run_backup quiet_env (one_database shop_db)
                            (started (one_database shop_db))))) = []
   \<and> map_of (files (snd (snd (run_backup quiet_env (one_database shop_db)
                                  (started (one_database shop_db))))))
         ''shop_mysql_20231114_221320.sql.gz'' =
       Some \<lparr>is_file = True, st_mtime = 1700000003, st_size = 0\<rparr>"
  by (simp add: model_defs example_defs suffix_def lower_MySQL)

text \<open>
  Claim C3 holds as far as non-zero exit statuses go (the two lemmas above), but its
  closing clause, that no failure path leaves a zero-byte or truncated dump, does not
  hold of the code: when the dump utility is not installed, or when it is and
  \<^verbatim>\<open>gzip\<close> is not, either database path fails and leaves the empty destination
  behind.
\<close>

theorem missing_tool_keeps_empty_destination:
  "fst (backup_mysql_database quiet_env shop_db empty_state) = None
   \<and> map_of (files (snd (backup_mysql_database quiet_env shop_db empty_state)))
         ''shop_mysql_20231114_221320.sql.gz'' =
       Some \<lparr>is_file = True, st_mtime = 1700000001, st_size = 0\<rparr>
   \<and> fst (backup_postgresql_database quiet_env shop_db empty_state) = None
   \<and> map_of (files (snd (backup_postgresql_database quiet_env shop_db empty_state)))
         ''shop_postgresql_20231114_221320.sql.gz'' =
       Some \<lparr>is_file = True, st_mtime = 1700000001, st_size = 0\<rparr>
   \<and> fst (backup_postgresql_database (quiet_env\<lparr>installed := (\<lambda>t. t = ''pg_dump'')\<rparr>)
            shop_db empty_state) = None
   \<and> map_of (files (snd (backup_postgresql_database
                            (quiet_env\<lparr>installed := (\<lambda>t. t = ''pg_dump'')\<rparr>)
                            shop_db empty_state)))
         ''shop_postgresql_20231114_221320.sql.gz'' =
       Some \<lparr>is_file = True, st_mtime = 1700000001, st_size = 0\<rparr>"
  by (simp add: model_defs example_defs)

end
